theory Spec2Isabelle
  imports Complex_Main "HOL-Library.Word" "HOL-Library.Log_Nat"
begin

unbundle bit_operations_syntax

section \<open>JavaScript numbers\<close>

text \<open>
  A JavaScript number is an IEEE double. The values the seeded generator handles are
  integers, so a number is modelled by its exact integer value. A sum of two integers
  is exact below \<open>2 ^ 53\<close>; above, the double keeps 53 significant bits and the
  sum is rounded to the nearest representable value, ties to the even significand.
\<close>

definition round_double :: "int \<Rightarrow> int" where
  "round_double n =
     (let a = nat \<bar>n\<bar>;
          e = floorlog 2 a - 53;
          q = a div 2 ^ e;
          r = a mod 2 ^ e;
          q' = (if 2 * r < 2 ^ e \<or> (2 * r = 2 ^ e \<and> even q) then q else q + 1)
      in sgn n * int (q' * 2 ^ e))"

definition js_add :: "int \<Rightarrow> int \<Rightarrow> int" where
  "js_add a b = round_double (a + b)"

text \<open>\<open>ToInt32\<close>: what \<open>|\<close>, \<open>^\<close>, \<open>>>>\<close> and \<open>Math.imul\<close> do to an
  integer-valued operand first. On 32-bit words \<open>*\<close> is \<open>Math.imul\<close>,
  \<open>drop_bit k\<close> is \<open>>>> k\<close>, and \<open>unat\<close> is \<open>>>> 0\<close>.\<close>

definition ToInt32 :: "int \<Rightarrow> 32 word" where
  "ToInt32 n = word_of_int n"

section \<open>math.js: the seeded generator\<close>

subsection \<open>hashPosition\<close>

text \<open>
  \<^verbatim>\<open>
  function hashPosition(seed, x, z) {
    const ix = Math.floor(x) | 0;
    const iz = Math.floor(z) | 0;
    let h = seed | 0;
    h = Math.imul(h ^ ix, 0x85ebca6b);
    h = Math.imul(h ^ iz, 0xc2b2ae35);
    h ^= h >>> 16;
    return h >>> 0;
  }
  \<close>
\<close>

definition hashPosition :: "int \<Rightarrow> real \<Rightarrow> real \<Rightarrow> nat" where
  "hashPosition seed x z =
     (let ix = ToInt32 \<lfloor>x\<rfloor>;
          iz = ToInt32 \<lfloor>z\<rfloor>;
          h = ToInt32 seed;
          h = (h XOR ix) * 0x85ebca6b;
          h = (h XOR iz) * 0xc2b2ae35;
          h = h XOR drop_bit 16 h
      in unat h)"

text \<open>The same body, statement by statement, as a list of mixing steps applied to
  \<open>seed | 0\<close>: it records which kind of step each assignment of the source is.\<close>

datatype mix_step = XorWith "32 word" | ImulBy "32 word" | XorShiftRight nat

fun mix :: "mix_step \<Rightarrow> 32 word \<Rightarrow> 32 word" where
  "mix (XorWith v) h = h XOR v"
| "mix (ImulBy c) h = h * c"
| "mix (XorShiftRight k) h = h XOR drop_bit k h"

fun is_xor_shift :: "mix_step \<Rightarrow> bool" where
  "is_xor_shift (XorShiftRight k) = True"
| "is_xor_shift s = False"

fun is_imul :: "mix_step \<Rightarrow> bool" where
  "is_imul (ImulBy c) = True"
| "is_imul s = False"

definition hashPosition_steps :: "real \<Rightarrow> real \<Rightarrow> mix_step list" where
  "hashPosition_steps x z =
     [XorWith (ToInt32 \<lfloor>x\<rfloor>), ImulBy 0x85ebca6b,
      XorWith (ToInt32 \<lfloor>z\<rfloor>), ImulBy 0xc2b2ae35,
      XorShiftRight 16]"

subsection \<open>mulberry32\<close>

text \<open>
  \<^verbatim>\<open>
  function mulberry32(seed) {
    return function () {
      let t = (seed += 0x6d2b79f5);
      t = Math.imul(t ^ (t >>> 15), t | 1);
      t ^= t + Math.imul(t ^ (t >>> 7), t | 61);
      return ((t ^ (t >>> 14)) >>> 0) / 4294967296;
    };
  }
  \<close>
  One call of the returned function, on the captured variable \<open>seed\<close>: the value
  returned and the new value of \<open>seed\<close>. The captured variable is a number, not a
  32-bit integer: \<open>+=\<close> is the addition of doubles. The quotient of an unsigned
  32-bit value by \<open>2 ^ 32\<close> is exact.
\<close>

definition mulberry32_call :: "int \<Rightarrow> real \<times> int" where
  "mulberry32_call seed =
     (let seed = js_add seed 0x6d2b79f5;
          t = ToInt32 seed;
          t = (t XOR drop_bit 15 t) * (t OR 1);
          t = t XOR (t + (t XOR drop_bit 7 t) * (t OR 61))
      in (real (unat (t XOR drop_bit 14 t)) / 4294967296, seed))"

definition advance :: "int \<Rightarrow> int" where
  "advance seed = snd (mulberry32_call seed)"

subsection \<open>The module and its closures\<close>

text \<open>
  The module has two variables, \<open>seededRandom\<close> (either \<open>Math.random\<close> or a
  function made by \<open>mulberry32\<close>) and \<open>globalWorldSeed\<close>. Every call of
  \<open>mulberry32\<close> makes a new closure with a captured variable of its own: the
  closures are the cells of a list, in the order of their creation, and a generator
  function is the index of its cell.
\<close>

datatype random_fn = MathRandom | Mulberry nat

record math_module =
  seededRandom :: random_fn
  globalWorldSeed :: "int option"
  closures :: "int list"

definition init_module :: math_module where
  "init_module = \<lparr>seededRandom = MathRandom, globalWorldSeed = None, closures = []\<rparr>"

definition mulberry32 :: "int \<Rightarrow> math_module \<Rightarrow> nat \<times> math_module" where
  "mulberry32 seed m = (length (closures m), m\<lparr>closures := closures m @ [seed]\<rparr>)"

definition createPositionRandom ::
  "int \<Rightarrow> real \<Rightarrow> real \<Rightarrow> math_module \<Rightarrow> nat \<times> math_module" where
  "createPositionRandom seed x z m =
     (let hash = hashPosition seed x z in mulberry32 (int hash) m)"

text \<open>Calling a generator function; \<open>None\<close> when the index is no closure.\<close>

definition invoke :: "nat \<Rightarrow> math_module \<Rightarrow> real option \<times> math_module" where
  "invoke g m =
     (if g < length (closures m)
      then (Some (fst (mulberry32_call (closures m ! g))),
            m\<lparr>closures := (closures m)[g := advance (closures m ! g)]\<rparr>)
      else (None, m))"

definition getWorldSeed :: "math_module \<Rightarrow> int option" where
  "getWorldSeed m = globalWorldSeed m"

definition setRandomSeed :: "int \<Rightarrow> math_module \<Rightarrow> math_module" where
  "setRandomSeed seed m =
     (let m = m\<lparr>globalWorldSeed := Some seed\<rparr>;
          (g, m) = mulberry32 seed m
      in m\<lparr>seededRandom := Mulberry g\<rparr>)"

definition resetRandom :: "math_module \<Rightarrow> math_module" where
  "resetRandom m = m\<lparr>globalWorldSeed := None, seededRandom := MathRandom\<rparr>"

text \<open>\<open>getRandom\<close> calls \<open>seededRandom\<close>; \<open>r\<close> is what \<open>Math.random\<close>
  returns if it is the one called.\<close>

definition getRandom :: "real \<Rightarrow> math_module \<Rightarrow> real option \<times> math_module" where
  "getRandom r m =
     (case seededRandom m of MathRandom \<Rightarrow> (Some r, m) | Mulberry g \<Rightarrow> invoke g m)"

text \<open>A client of the module is a sequence of calls.\<close>

datatype call =
    CreatePositionRandom int real real
  | Invoke nat
  | SetRandomSeed int
  | ResetRandom
  | GetRandom real

fun step :: "call \<Rightarrow> math_module \<Rightarrow> math_module" where
  "step (CreatePositionRandom seed x z) m = snd (createPositionRandom seed x z m)"
| "step (Invoke g) m = snd (invoke g m)"
| "step (SetRandomSeed seed) m = setRandomSeed seed m"
| "step ResetRandom m = resetRandom m"
| "step (GetRandom r) m = snd (getRandom r m)"

fun run :: "call list \<Rightarrow> math_module \<Rightarrow> math_module" where
  "run [] m = m"
| "run (c # cs) m = run cs (step c m)"

definition invocations :: "nat \<Rightarrow> call list \<Rightarrow> nat" where
  "invocations g cs = length (filter (\<lambda>c. c = Invoke g) cs)"

text \<open>The variable \<open>seededRandom\<close> holds \<open>Math.random\<close> or a closure that
  exists.\<close>

definition module_ok :: "math_module \<Rightarrow> bool" where
  "module_ok m =
     (case seededRandom m of MathRandom \<Rightarrow> True | Mulberry k \<Rightarrow> k < length (closures m))"

section \<open>multiplayer.js: the durable store\<close>

text \<open>
  The table \<open>worlds\<close> of the external store, keyed by its column \<open>id\<close>; a row
  has the columns \<open>seed\<close>, \<open>owner_player_id\<close> (nullable) and \<open>name\<close>. The
  store is not part of the repository. It is modelled by the three requests the manager
  sends: a select of one row by id, an insert, which the store rejects when a row with
  that id exists (the manager reads a rejected insert as "someone else created the
  world first"), and an update of \<open>owner_player_id\<close> filtered by id alone. Any
  request may also fail on its own (\<open>fails\<close>); a failed write changes nothing.
\<close>

record world =
  world_seed :: int
  owner_player_id :: "string option"
  world_name :: string

type_synonym worlds = "string \<rightharpoonup> world"

datatype store_error = PGRST116 | UniqueViolation | StoreFailure

text \<open>\<^verbatim>\<open>supabase.from("worlds").select("*").eq("id", ROOM_ID).single()\<close>:
  the pair \<open>{data, error}\<close>.\<close>

definition select_single :: "bool \<Rightarrow> worlds \<Rightarrow> string \<Rightarrow> world option \<times> store_error option" where
  "select_single fails tbl i =
     (if fails then (None, Some StoreFailure)
      else case tbl i of None \<Rightarrow> (None, Some PGRST116) | Some w \<Rightarrow> (Some w, None))"

text \<open>\<^verbatim>\<open>supabase.from("worlds").insert({id, seed, owner_player_id, name})\<close>:
  the new table and \<open>error\<close>.\<close>

definition insert_world :: "bool \<Rightarrow> worlds \<Rightarrow> string \<Rightarrow> world \<Rightarrow> worlds \<times> store_error option" where
  "insert_world fails tbl i w =
     (if fails then (tbl, Some StoreFailure)
      else case tbl i of None \<Rightarrow> (tbl(i \<mapsto> w), None) | Some _ \<Rightarrow> (tbl, Some UniqueViolation))"

text \<open>\<^verbatim>\<open>supabase.from("worlds").update({ owner_player_id: playerId }).eq("id", ROOM_ID)\<close>:
  the only filter is the id.\<close>

definition update_owner :: "bool \<Rightarrow> worlds \<Rightarrow> string \<Rightarrow> string option \<Rightarrow> worlds" where
  "update_owner fails tbl i p =
     (if fails then tbl
      else case tbl i of None \<Rightarrow> tbl | Some w \<Rightarrow> tbl(i \<mapsto> w\<lparr>owner_player_id := p\<rparr>))"

text \<open>The writes that managers send to the table: the two above.\<close>

datatype store_write = InsertWorld string world | UpdateOwner string "string option"

fun apply_write :: "store_write \<Rightarrow> worlds \<Rightarrow> worlds" where
  "apply_write (InsertWorld i w) tbl = fst (insert_world False tbl i w)"
| "apply_write (UpdateOwner i p) tbl = update_owner False tbl i p"

section \<open>multiplayer.js: the manager\<close>

subsection \<open>State\<close>

text \<open>What a peer publishes with \<open>channel.track\<close>. The entries of a roster come from
  other peers, so every field may be missing.\<close>

record presence =
  presence_playerId :: "string option"
  presence_playerName :: "string option"
  presence_playerColor :: "string option"
  presence_playerAccessories :: "string list option"
  joinedAt :: "int option"
  lastActive :: "int option"

text \<open>\<open>channel.presenceState()\<close>: an object from player ids to arrays of presences, as
  the list of its properties.\<close>

type_synonym presence_state = "(string \<times> presence list) list"

fun Object_keys :: "presence_state \<Rightarrow> string list" where
  "Object_keys [] = []"
| "Object_keys ((k, v) # kvs) = k # filter (\<lambda>j. j \<noteq> k) (Object_keys kvs)"

text \<open>\<open>state[pid]?.[0]\<close>\<close>

definition first_presence :: "presence_state \<Rightarrow> string \<Rightarrow> presence option" where
  "first_presence state pid =
     (case map_of state pid of None \<Rightarrow> None | Some [] \<Rightarrow> None | Some (p # ps) \<Rightarrow> Some p)"

text \<open>\<open>a || b\<close> on numbers: \<open>a\<close> unless it is undefined or \<open>0\<close>.\<close>

definition js_or :: "int option \<Rightarrow> int \<Rightarrow> int" where
  "js_or a b = (case a of None \<Rightarrow> b | Some v \<Rightarrow> if v = 0 then b else v)"

text \<open>\<open>presence?.lastActive || presence?.joinedAt || 0\<close>\<close>

definition last_activity :: "presence option \<Rightarrow> int" where
  "last_activity p =
     (case p of None \<Rightarrow> 0 | Some q \<Rightarrow> js_or (lastActive q) (js_or (joinedAt q) 0))"

text \<open>\<open>!s\<close> on a nullable string.\<close>

definition falsy :: "string option \<Rightarrow> bool" where
  "falsy s = (s = None \<or> s = Some [])"

record move_payload =
  move_x :: real
  move_y :: real
  move_z :: real
  move_rotation :: real
  move_vx :: real
  move_vz :: real
  move_isMoving :: bool
  move_grounded :: bool

text \<open>What the manager does to the outside, in order: requests to the channel, calls of
  the callbacks of the game, and an exception that nothing catches.\<close>

datatype effect =
    Track presence
  | Untrack
  | RemoveChannel
  | SendPlayerMove "string option" move_payload int
  | CallOnPlayerJoin string "presence option"
  | CallOnPlayerPresenceUpdate string "presence option"
  | CallOnPlayerLeave string
  | CallOnWorldSeedReceived "int option"
  | UncaughtTypeError

text \<open>The callbacks of the two timers of \<open>init\<close>. The heartbeat captures the time of
  the subscription.\<close>

datatype task = HeartbeatTask int | DelayedSyncTask

datatype timer = SetInterval task nat | SetTimeout task nat

text \<open>
  The variables of the closure that \<open>createMultiplayerManager\<close> returns. A callback
  variable is \<open>True\<close> when a function is set. \<open>spawnedPlayers\<close> is the set that
  \<open>init\<close> creates for its handlers. \<open>timers\<close> are the timers registered with the
  event loop and not cleared, \<open>effects\<close> what the manager has done so far.
\<close>

record manager =
  ROOM_ID :: string
  CHANNEL_NAME :: string
  channel :: "string option"
  playerId :: "string option"
  playerName :: "string option"
  playerColor :: "string option"
  playerAccessories :: "string list"
  isHost :: bool
  worldSeed :: "int option"
  lastBroadcastTime :: int
  currentWorldId :: string
  onPlayerJoin :: bool
  onPlayerLeave :: bool
  onPlayerMove :: bool
  onPlayerPresenceUpdate :: bool
  onWorldSeedReceived :: bool
  onChatMessage :: bool
  onPing :: bool
  onTeleportRequest :: bool
  onTeleportResponse :: bool
  spawnedPlayers :: "string set"
  timers :: "timer list"
  effects :: "effect list"

definition BROADCAST_THROTTLE_MS :: int where
  "BROADCAST_THROTTLE_MS = 50"

definition STALE_THRESHOLD :: int where
  "STALE_THRESHOLD = 300000"

subsection \<open>setSupabaseClient and createMultiplayerManager\<close>

datatype supabase_client = SupabaseClient string

record multiplayer_module =
  supabaseClient :: "supabase_client option"

definition init_multiplayer :: multiplayer_module where
  "init_multiplayer = \<lparr>supabaseClient = None\<rparr>"

definition setSupabaseClient ::
  "supabase_client option \<Rightarrow> multiplayer_module \<Rightarrow> multiplayer_module" where
  "setSupabaseClient client mm = mm\<lparr>supabaseClient := client\<rparr>"

datatype js_error = Error string

definition new_manager :: "string \<Rightarrow> manager" where
  "new_manager worldId =
     \<lparr>ROOM_ID = worldId,
      CHANNEL_NAME = ''game_room_'' @ worldId,
      channel = None,
      playerId = None,
      playerName = None,
      playerColor = None,
      playerAccessories = [],
      isHost = False,
      worldSeed = None,
      lastBroadcastTime = 0,
      currentWorldId = worldId,
      onPlayerJoin = False,
      onPlayerLeave = False,
      onPlayerMove = False,
      onPlayerPresenceUpdate = False,
      onWorldSeedReceived = False,
      onChatMessage = False,
      onPing = False,
      onTeleportRequest = False,
      onTeleportResponse = False,
      spawnedPlayers = {},
      timers = [],
      effects = []\<rparr>"

text \<open>The parameter \<open>worldId\<close> defaults to \<open>'portal'\<close>. The result is the thrown
  error or the manager.\<close>

definition createMultiplayerManager ::
  "string option \<Rightarrow> multiplayer_module \<Rightarrow> js_error + manager" where
  "createMultiplayerManager worldId mm =
     (case supabaseClient mm of
        None \<Rightarrow> Inl (Error ''Supabase client not set. Call setSupabaseClient() first.'')
      | Some supabase \<Rightarrow>
          Inr (new_manager (case worldId of None \<Rightarrow> ''portal'' | Some w \<Rightarrow> w)))"

definition setOnPlayerJoin :: "bool \<Rightarrow> manager \<Rightarrow> manager" where
  "setOnPlayerJoin callback m = m\<lparr>onPlayerJoin := callback\<rparr>"

definition setOnPlayerPresenceUpdate :: "bool \<Rightarrow> manager \<Rightarrow> manager" where
  "setOnPlayerPresenceUpdate callback m = m\<lparr>onPlayerPresenceUpdate := callback\<rparr>"

subsection \<open>The presence handlers of init\<close>

text \<open>The body of the loop of the \<open>sync\<close> handler, for one id of the roster.\<close>

definition sync_player :: "int \<Rightarrow> presence_state \<Rightarrow> string \<Rightarrow> manager \<Rightarrow> manager" where
  "sync_player now state pid m =
     (if Some pid = playerId m then m
      else
        let presenceData = first_presence state pid;
            joined = js_or (case presenceData of None \<Rightarrow> None | Some p \<Rightarrow> joinedAt p) 0;
            active = js_or (case presenceData of None \<Rightarrow> None | Some p \<Rightarrow> lastActive p) joined
        in if now - active > STALE_THRESHOLD then m
           else if pid \<notin> spawnedPlayers m
           then (let m = m\<lparr>spawnedPlayers := insert pid (spawnedPlayers m)\<rparr>
                 in if onPlayerJoin m
                    then m\<lparr>effects := effects m @ [CallOnPlayerJoin pid presenceData]\<rparr>
                    else m)
           else if onPlayerPresenceUpdate m
           then m\<lparr>effects := effects m @ [CallOnPlayerPresenceUpdate pid presenceData]\<rparr>
           else m)"

definition presence_sync :: "int \<Rightarrow> presence_state \<Rightarrow> manager \<Rightarrow> manager" where
  "presence_sync now state m = fold (sync_player now state) (Object_keys state) m"

text \<open>The \<open>join\<close> handler, with \<open>newPresences[0]\<close> read as above.\<close>

definition presence_join :: "int \<Rightarrow> string \<Rightarrow> presence list \<Rightarrow> manager \<Rightarrow> manager" where
  "presence_join now key newPresences m =
     (if Some key \<noteq> playerId m \<and> key \<notin> spawnedPlayers m
      then
        let presence = (case newPresences of [] \<Rightarrow> None | p # ps \<Rightarrow> Some p);
            active = last_activity presence
        in if now - active > 300000 then m
           else (let m = m\<lparr>spawnedPlayers := insert key (spawnedPlayers m)\<rparr>
                 in if onPlayerJoin m
                    then m\<lparr>effects := effects m @ [CallOnPlayerJoin key presence]\<rparr>
                    else m)
      else m)"

definition presence_leave :: "string \<Rightarrow> manager \<Rightarrow> manager" where
  "presence_leave key m =
     (let m = m\<lparr>spawnedPlayers := spawnedPlayers m - {key}\<rparr>
      in if onPlayerLeave m \<and> Some key \<noteq> playerId m
         then m\<lparr>effects := effects m @ [CallOnPlayerLeave key]\<rparr>
         else m)"

subsection \<open>The timers of init\<close>

definition own_presence :: "manager \<Rightarrow> int \<Rightarrow> int \<Rightarrow> presence" where
  "own_presence m joined active =
     \<lparr>presence_playerId = playerId m,
      presence_playerName = playerName m,
      presence_playerColor = playerColor m,
      presence_playerAccessories = Some (playerAccessories m),
      joinedAt = Some joined,
      lastActive = Some active\<rparr>"

text \<open>The callback of \<open>setInterval(..., 20000)\<close>: it tracks only \<open>if (channel)\<close>.\<close>

definition heartbeat :: "int \<Rightarrow> int \<Rightarrow> manager \<Rightarrow> manager" where
  "heartbeat joined now m =
     (if channel m \<noteq> None
      then m\<lparr>effects := effects m @ [Track (own_presence m joined now)]\<rparr>
      else m)"

definition delayed_player :: "int \<Rightarrow> presence_state \<Rightarrow> string \<Rightarrow> manager \<Rightarrow> manager" where
  "delayed_player now state pid m =
     (if Some pid \<noteq> playerId m \<and> pid \<notin> spawnedPlayers m
      then
        let presenceData = first_presence state pid;
            active = last_activity presenceData
        in if now - active > STALE_THRESHOLD then m
           else (let m = m\<lparr>spawnedPlayers := insert pid (spawnedPlayers m)\<rparr>
                 in if onPlayerJoin m
                    then m\<lparr>effects := effects m @ [CallOnPlayerJoin pid presenceData]\<rparr>
                    else m)
      else m)"

text \<open>The callback of \<open>setTimeout(..., 500)\<close>. Its first statement is
  \<open>channel.presenceState()\<close>, with no test of \<open>channel\<close>: on \<open>null\<close> it throws.\<close>

definition delayed_sync :: "int \<Rightarrow> presence_state \<Rightarrow> manager \<Rightarrow> manager" where
  "delayed_sync now state m =
     (case channel m of
        None \<Rightarrow> m\<lparr>effects := effects m @ [UncaughtTypeError]\<rparr>
      | Some c \<Rightarrow> fold (delayed_player now state) (Object_keys state) m)"

fun run_task :: "task \<Rightarrow> int \<Rightarrow> presence_state \<Rightarrow> manager \<Rightarrow> manager" where
  "run_task (HeartbeatTask joined) now state m = heartbeat joined now m"
| "run_task DelayedSyncTask now state m = delayed_sync now state m"

text \<open>The event loop fires the timer at index \<open>i\<close>, at time \<open>now\<close> and with the roster
  \<open>state\<close>. A timeout fires once; an interval stays registered.\<close>

definition fire :: "nat \<Rightarrow> int \<Rightarrow> presence_state \<Rightarrow> manager \<Rightarrow> manager" where
  "fire i now state m =
     (if i < length (timers m)
      then case timers m ! i of
             SetInterval t d \<Rightarrow> run_task t now state m
           | SetTimeout t d \<Rightarrow>
               run_task t now state (m\<lparr>timers := take i (timers m) @ drop (Suc i) (timers m)\<rparr>)
      else m)"

subsection \<open>init\<close>

text \<open>The callback of \<open>channel.subscribe\<close> on \<open>SUBSCRIBED\<close>, at time \<open>now\<close>: it
  tracks the presence of this peer and starts the heartbeat.\<close>

definition subscribed :: "int \<Rightarrow> manager \<Rightarrow> manager" where
  "subscribed now m =
     (case channel m of
        None \<Rightarrow> m\<lparr>effects := effects m @ [UncaughtTypeError]\<rparr>
      | Some c \<Rightarrow>
          m\<lparr>effects := effects m @ [Track (own_presence m now now)],
            timers := timers m @ [SetInterval (HeartbeatTask now) 20000]\<rparr>)"

text \<open>
  A value of \<open>Math.random()\<close>: a double in \<open>[0, 1)\<close>, that is
  \<open>significand / 2 ^ scale\<close> with a significand of at most 53 bits.
\<close>

record draw =
  draw_significand :: nat
  draw_scale :: nat

definition is_Math_random :: "draw \<Rightarrow> bool" where
  "is_Math_random r =
     (draw_significand r < 2 ^ 53 \<and> draw_significand r < 2 ^ draw_scale r \<and> draw_scale r \<le> 1074)"

definition draw_value :: "draw \<Rightarrow> real" where
  "draw_value r = real (draw_significand r) / 2 ^ draw_scale r"

text \<open>
  \<open>Math.floor(Math.random() * 1000000)\<close>, for the value \<open>r\<close> of \<open>Math.random()\<close>.
  The product is a product of doubles: the exact product
  \<open>significand * 1000000 / 2 ^ scale\<close> rounded to 53 significant bits, and the
  rounding of a quotient by a power of two is the rounding of the numerator. (Below
  the normal range a double keeps fewer bits; there the floor is 0 either way.)
\<close>

definition generateWorldSeed :: "draw \<Rightarrow> int" where
  "generateWorldSeed r = round_double (int (draw_significand r) * 1000000) div 2 ^ draw_scale r"

text \<open>
  What happens at the store while \<open>init\<close> waits: the writes of other managers that
  arrive between the first select and the write of this manager, and between a rejected
  insert and the second select, and which of the requests of this manager fail.
\<close>

record interleaving =
  fetch_fails :: bool
  before_write :: "store_write list"
  write_fails :: bool
  before_reread :: "store_write list"
  reread_fails :: bool

text \<open>
  The part of \<open>init\<close> from \<open>const presenceState = channel.presenceState()\<close> to the
  end of \<open>if (existingWorld) ... else ...\<close>: the roster at that moment, the value of
  \<open>Math.random()\<close>, the table before the first select; the manager and the table
  after.
\<close>

definition resolve_world ::
  "interleaving \<Rightarrow> presence_state \<Rightarrow> draw \<Rightarrow> worlds \<Rightarrow> manager \<Rightarrow> manager \<times> worlds" where
  "resolve_world il presenceState r tbl m =
     (let otherPlayers = filter (\<lambda>pid. Some pid \<noteq> playerId m) (Object_keys presenceState);
          (existingWorld, fetchError) = select_single (fetch_fails il) tbl (ROOM_ID m);
          tbl = fold apply_write (before_write il) tbl
      in case existingWorld of
           Some w \<Rightarrow>
             (let m = m\<lparr>worldSeed := Some (world_seed w)\<rparr>
              in if length otherPlayers = 0 \<and> falsy (owner_player_id w)
                 then (m\<lparr>isHost := True\<rparr>,
                       update_owner (write_fails il) tbl (ROOM_ID m) (playerId m))
                 else (m\<lparr>isHost := (owner_player_id w = playerId m)\<rparr>, tbl))
         | None \<Rightarrow>
             (let m = m\<lparr>worldSeed := Some (generateWorldSeed r), isHost := True\<rparr>;
                  (tbl, insertError) =
                    insert_world (write_fails il) tbl (ROOM_ID m)
                      \<lparr>world_seed = generateWorldSeed r,
                       owner_player_id = playerId m,
                       world_name = ''Untitled World''\<rparr>
              in case insertError of
                   None \<Rightarrow> (m, tbl)
                 | Some e \<Rightarrow>
                     (let tbl = fold apply_write (before_reread il) tbl;
                          (raceWorld, rereadError) =
                            select_single (reread_fails il) tbl (ROOM_ID m)
                      in case raceWorld of
                           Some rw \<Rightarrow>
                             (m\<lparr>worldSeed := Some (world_seed rw), isHost := False\<rparr>, tbl)
                         | None \<Rightarrow> (m, tbl))))"

text \<open>
  What \<open>init\<close> finds when it settles the identity of the player: the result of
  \<open>loadCustomizationFromDb()\<close> (\<open>null\<close> when nobody is logged in or no row is
  found), and what \<open>generatePlayerId()\<close>, \<open>generatePlayerName()\<close> and
  \<open>loadPlayerAccessories()\<close> return when they are called.
\<close>

record db_customization =
  db_playerId :: "string option"
  db_color :: "string option"
  db_accessories :: "string list"
  db_name :: "string option"

record identity_sources =
  dbCustomization :: "db_customization option"
  generatePlayerId :: string
  generatePlayerName :: string
  loadPlayerAccessories :: "string list"

text \<open>\<open>a || b\<close> on nullable strings.\<close>

definition string_or :: "string option \<Rightarrow> string option \<Rightarrow> string option" where
  "string_or a b = (if falsy a then b else a)"

text \<open>
  The manager declares \<open>function getPlayerColor\<close> twice in the same scope: with a
  parameter \<open>id\<close> (a saved colour, or a colour picked by a hash of the id) and, further
  down, with no parameter (the getter of \<open>playerColor\<close>). The later declaration is
  the one in force, also for the calls \<open>getPlayerColor(playerId)\<close> of \<open>init\<close>.
\<close>

definition getPlayerColor :: "manager \<Rightarrow> string option" where
  "getPlayerColor m = playerColor m"

text \<open>The first statements of \<open>init\<close>, \<open>if (dbCustomization) ... else ...\<close>.\<close>

definition load_identity :: "identity_sources \<Rightarrow> manager \<Rightarrow> manager" where
  "load_identity who m =
     (case dbCustomization who of
        Some db \<Rightarrow>
          (let m = m\<lparr>playerId := db_playerId db\<rparr>;
               m = m\<lparr>playerName := string_or (db_name db) (Some (generatePlayerName who))\<rparr>;
               m = m\<lparr>playerColor := string_or (db_color db) (getPlayerColor m)\<rparr>
           in m\<lparr>playerAccessories := db_accessories db\<rparr>)
      | None \<Rightarrow>
          (let m = m\<lparr>playerId := Some (generatePlayerId who)\<rparr>;
               m = m\<lparr>playerName := Some (generatePlayerName who)\<rparr>;
               m = m\<lparr>playerColor := getPlayerColor m\<rparr>
           in m\<lparr>playerAccessories := loadPlayerAccessories who\<rparr>))"

definition init ::
  "identity_sources \<Rightarrow> int \<Rightarrow> interleaving \<Rightarrow> presence_state \<Rightarrow> draw \<Rightarrow> worlds \<Rightarrow> manager
     \<Rightarrow> manager \<times> worlds" where
  "init who now il presenceState r tbl m =
     (let m = load_identity who m;
          m = m\<lparr>channel := Some (CHANNEL_NAME m), spawnedPlayers := {}\<rparr>;
          m = subscribed now m;
          (m, tbl) = resolve_world il presenceState r tbl m;
          m = m\<lparr>timers := timers m @ [SetTimeout DelayedSyncTask 500]\<rparr>;
          m = (if onWorldSeedReceived m
               then m\<lparr>effects := effects m @ [CallOnWorldSeedReceived (worldSeed m)]\<rparr>
               else m)
      in (m, tbl))"

subsection \<open>broadcastPosition and leave\<close>

text \<open>\<open>now\<close> is the value of \<open>Date.now()\<close> in the call.\<close>

definition broadcastPosition :: "int \<Rightarrow> move_payload \<Rightarrow> manager \<Rightarrow> manager" where
  "broadcastPosition now pos m =
     (if channel m = None then m
      else if now - lastBroadcastTime m < BROADCAST_THROTTLE_MS then m
      else m\<lparr>lastBroadcastTime := now,
             effects := effects m @ [SendPlayerMove (playerId m) pos now]\<rparr>)"

definition leave :: "manager \<Rightarrow> manager" where
  "leave m =
     (if channel m = None then m
      else m\<lparr>effects := effects m @ [Untrack, RemoveChannel], channel := None\<rparr>)"

text \<open>Counting what happened between two states of a manager.\<close>

definition since :: "manager \<Rightarrow> manager \<Rightarrow> effect list" where
  "since m m' = drop (length (effects m)) (effects m')"

fun is_send :: "effect \<Rightarrow> bool" where
  "is_send (SendPlayerMove p pos t) = True"
| "is_send e = False"

fun is_join_of :: "string \<Rightarrow> effect \<Rightarrow> bool" where
  "is_join_of pid (CallOnPlayerJoin q p) = (q = pid)"
| "is_join_of pid e = False"

fun is_update_of :: "string \<Rightarrow> effect \<Rightarrow> bool" where
  "is_update_of pid (CallOnPlayerPresenceUpdate q p) = (q = pid)"
| "is_update_of pid e = False"

fun is_track :: "effect \<Rightarrow> bool" where
  "is_track (Track p) = True"
| "is_track e = False"

subsection \<open>Two peers and a room\<close>

text \<open>Concrete states for the instances below: a manager of the room \<open>room-1\<close> whose
  player id is \<open>peerA\<close>, a row with no owner, a row that \<open>peerB\<close> created, and a
  run of \<open>init\<close> in which nothing else happens at the store and no request fails.\<close>

definition peerA :: manager where
  "peerA = (new_manager ''room-1'')\<lparr>playerId := Some ''peerA''\<rparr>"

definition unowned_world :: world where
  "unowned_world = \<lparr>world_seed = 42, owner_player_id = None, world_name = ''Untitled World''\<rparr>"

definition world_of_peerB :: world where
  "world_of_peerB =
     \<lparr>world_seed = 7, owner_player_id = Some ''peerB'', world_name = ''Untitled World''\<rparr>"

definition quiet :: interleaving where
  "quiet = \<lparr>fetch_fails = False, before_write = [], write_fails = False,
            before_reread = [], reread_fails = False\<rparr>"

definition identityA :: identity_sources where
  "identityA = \<lparr>dbCustomization = None, generatePlayerId = ''peerA'',
                generatePlayerName = ''HappyBunny'', loadPlayerAccessories = []\<rparr>"

text \<open>\<open>Math.random()\<close> returning one half.\<close>

definition half :: draw where
  "half = \<lparr>draw_significand = 1, draw_scale = 1\<rparr>"

text \<open>The manager of \<open>peerA\<close> after \<open>createMultiplayerManager('room-1')\<close>, the
  registration of the two presence callbacks and \<open>init\<close>, subscribed at time 1000 to
  an empty room; and what a player \<open>p1\<close> who joined at time 1000 publishes.\<close>

definition joinedA :: manager where
  "joinedA =
     fst (init identityA 1000 quiet [] half Map.empty
            (setOnPlayerPresenceUpdate True (setOnPlayerJoin True (new_manager ''room-1''))))"

definition presence_p1 :: "string \<Rightarrow> int \<Rightarrow> presence" where
  "presence_p1 color active =
     \<lparr>presence_playerId = Some ''p1'',
      presence_playerName = Some ''SleepyFox'',
      presence_playerColor = Some color,
      presence_playerAccessories = Some [],
      joinedAt = Some 1000,
      lastActive = Some active\<rparr>"

definition still :: move_payload where
  "still = \<lparr>move_x = 0, move_y = 0, move_z = 0, move_rotation = 0, move_vx = 0, move_vz = 0,
            move_isMoving = False, move_grounded = True\<rparr>"

section \<open>Properties of the seeded generator\<close>

lemma round_double_exact: "\<bar>n\<bar> < 2 ^ 53 \<Longrightarrow> round_double n = n"
proof -
  assume a: "\<bar>n\<bar> < 2 ^ 53"
  have "nat \<bar>n\<bar> < 2 ^ 53"
    using a by (simp add: nat_less_iff)
  then have "floorlog 2 (nat \<bar>n\<bar>) \<le> 53"
    by (intro floorlog_leI) simp_all
  then have e: "floorlog 2 (nat \<bar>n\<bar>) - 53 = 0"
    by simp
  show ?thesis
    unfolding round_double_def Let_def e by (simp add: mult_sgn_abs)
qed

text \<open>While the captured variable is below \<open>2 ^ 52\<close> the addition is exact: from a
  hash, for the first two million calls at least.\<close>

lemma advance_exact:
  assumes "0 \<le> s" and "s < 2 ^ 52"
  shows "advance s = s + 0x6d2b79f5"
proof -
  have "\<bar>s + 0x6d2b79f5\<bar> < 2 ^ 53"
    using assms by simp
  then show ?thesis
    by (simp add: advance_def mulberry32_call_def js_add_def Let_def round_double_exact)
qed

text \<open>The hash of seed 1 at position (2, 3), and the first call of its generator.\<close>

lemma hashPosition_example: "hashPosition 1 2 3 = 940944575"
  by (simp add: hashPosition_def ToInt32_def)

lemma mulberry32_call_example:
  "mulberry32_call (int (hashPosition 1 2 3)) = (675729595 / 4294967296, 2772510388)"
  by (simp add: mulberry32_call_def js_add_def round_double_exact Let_def ToInt32_def
      hashPosition_def)

lemma hashPosition_as_steps:
  "hashPosition seed x z = unat (fold mix (hashPosition_steps x z) (ToInt32 seed))"
  by (simp add: hashPosition_def hashPosition_steps_def Let_def)

lemma hashPosition_less: "hashPosition seed x z < 2 ^ 32"
proof -
  have "unat w < 2 ^ 32" for w :: "32 word"
    using unsigned_less [of w] by simp
  then show ?thesis
    by (simp add: hashPosition_def Let_def)
qed

lemma hashPosition_wraparound:
  "int (hashPosition seed x z) =
     (let h0 = seed mod 2 ^ 32;
          h1 = ((h0 XOR (\<lfloor>x\<rfloor> mod 2 ^ 32)) * 0x85ebca6b) mod 2 ^ 32;
          h2 = ((h1 XOR (\<lfloor>z\<rfloor> mod 2 ^ 32)) * 0xc2b2ae35) mod 2 ^ 32
      in h2 XOR (h2 div 2 ^ 16))"
  by (simp add: hashPosition_def ToInt32_def Let_def uint_word_ariths uint_xor
      drop_bit_eq_div uint_div_distrib uint_word_of_int)

lemma module_ok_init: "module_ok init_module"
  by (simp add: module_ok_def init_module_def)

lemma module_ok_step: "module_ok m \<Longrightarrow> module_ok (step c m)"
  by (cases c)
     (auto simp: module_ok_def createPositionRandom_def mulberry32_def invoke_def
        setRandomSeed_def resetRandom_def getRandom_def Let_def
        split: random_fn.splits)

lemma module_ok_run: "module_ok m \<Longrightarrow> module_ok (run cs m)"
  by (induction cs arbitrary: m) (simp_all add: module_ok_step)

text \<open>A closure that is not the one in seededRandom changes only when it is invoked.\<close>

lemma step_cell:
  assumes "g < length (closures m)" and "seededRandom m \<noteq> Mulberry g" and "module_ok m"
  shows "g < length (closures (step c m))
       \<and> seededRandom (step c m) \<noteq> Mulberry g
       \<and> closures (step c m) ! g =
           (if c = Invoke g then advance (closures m ! g) else closures m ! g)"
  using assms
  by (cases c)
     (auto simp: module_ok_def createPositionRandom_def mulberry32_def invoke_def
        setRandomSeed_def resetRandom_def getRandom_def Let_def nth_append
        split: random_fn.splits)

lemma run_cell:
  assumes "g < length (closures m)" and "seededRandom m \<noteq> Mulberry g" and "module_ok m"
  shows "g < length (closures (run cs m))
       \<and> closures (run cs m) ! g = (advance ^^ invocations g cs) (closures m ! g)"
  using assms
proof (induction cs arbitrary: m)
  case Nil
  then show ?case by (simp add: invocations_def)
next
  case (Cons c cs)
  note s = step_cell [OF Cons.prems, of c]
  have ok: "module_ok (step c m)"
    using Cons.prems(3) by (rule module_ok_step)
  have ih: "g < length (closures (run cs (step c m)))
       \<and> closures (run cs (step c m)) ! g
           = (advance ^^ invocations g cs) (closures (step c m) ! g)"
    using Cons.IH [of "step c m"] s ok by blast
  show ?case
    using ih s by (simp add: invocations_def funpow_swap1)
qed

lemma created_cell:
  assumes "module_ok m" and "createPositionRandom seed x z m = (g, m')"
  shows "g < length (closures m') \<and> seededRandom m' \<noteq> Mulberry g \<and> module_ok m'
       \<and> closures m' ! g = int (hashPosition seed x z)"
  using assms
  by (auto simp: module_ok_def createPositionRandom_def mulberry32_def Let_def
      split: random_fn.splits)

lemma generator_output:
  assumes "module_ok m" and "createPositionRandom seed x z m = (g, m')"
  shows "fst (invoke g (run cs m')) =
     Some (fst (mulberry32_call ((advance ^^ invocations g cs) (int (hashPosition seed x z)))))"
proof -
  note c = created_cell [OF assms]
  have "g < length (closures (run cs m'))
       \<and> closures (run cs m') ! g = (advance ^^ invocations g cs) (closures m' ! g)"
    using c by (intro run_cell) simp_all
  then show ?thesis
    using c by (simp add: invoke_def)
qed

text \<open>
  Claim C1. Two generator functions made by \<open>createPositionRandom\<close> with the same
  \<open>(seed, x, z)\<close> give the same value at their \<open>n\<close>-th call. The two are made in
  any two histories of the module (\<open>before1\<close>, \<open>before2\<close>: any calls, with other
  seeds and positions, of the global generator, of generators made earlier), and
  between their creation and the call any other calls are made (\<open>between1\<close>,
  \<open>between2\<close>), of which \<open>n\<close> are calls of the generator itself. Both calls return
  a number, and the same one.
\<close>

theorem createPositionRandom_deterministic:
  assumes "createPositionRandom seed x z (run before1 init_module) = (g1, m1)"
    and "createPositionRandom seed x z (run before2 init_module) = (g2, m2)"
    and "invocations g1 between1 = n"
    and "invocations g2 between2 = n"
  shows "\<exists>v. fst (invoke g1 (run between1 m1)) = Some v
           \<and> fst (invoke g2 (run between2 m2)) = Some v"
proof -
  have ok1: "module_ok (run before1 init_module)" and ok2: "module_ok (run before2 init_module)"
    by (simp_all add: module_ok_run module_ok_init)
  show ?thesis
    using generator_output [OF ok1 assms(1), of between1]
      generator_output [OF ok2 assms(2), of between2] assms(3,4)
    by simp
qed

text \<open>
  An instance: one generator is made first thing and called once; the other is made
  after the global generator was seeded and used and another position was queried,
  and is called after a call of that other generator, a reset and one call of its own.
\<close>

theorem createPositionRandom_deterministic_witness:
  "invocations (fst (createPositionRandom 12345 1000 2000 (run [] init_module)))
       [Invoke 0] = 1
   \<and> invocations (fst (createPositionRandom 12345 1000 2000
         (run [SetRandomSeed 7, CreatePositionRandom 1 5 5, GetRandom (1 / 2)] init_module)))
       [Invoke 1, ResetRandom, Invoke 2, CreatePositionRandom 12345 1000 2000] = 1
   \<and> (\<exists>v. fst (invoke (fst (createPositionRandom 12345 1000 2000 (run [] init_module)))
              (run [Invoke 0]
                 (snd (createPositionRandom 12345 1000 2000 (run [] init_module))))) = Some v
          \<and> fst (invoke (fst (createPositionRandom 12345 1000 2000
                (run [SetRandomSeed 7, CreatePositionRandom 1 5 5, GetRandom (1 / 2)] init_module)))
              (run [Invoke 1, ResetRandom, Invoke 2, CreatePositionRandom 12345 1000 2000]
                 (snd (createPositionRandom 12345 1000 2000
                   (run [SetRandomSeed 7, CreatePositionRandom 1 5 5, GetRandom (1 / 2)]
                      init_module))))) = Some v)"
proof -
  have len: "fst (createPositionRandom s x z m) = length (closures m)" for s x z m
    by (simp add: createPositionRandom_def mulberry32_def Let_def)
  have n1: "invocations (fst (createPositionRandom 12345 1000 2000 (run [] init_module)))
       [Invoke 0] = 1"
    by (simp add: len invocations_def init_module_def)
  have n2: "invocations (fst (createPositionRandom 12345 1000 2000
         (run [SetRandomSeed 7, CreatePositionRandom 1 5 5, GetRandom (1 / 2)] init_module)))
       [Invoke 1, ResetRandom, Invoke 2, CreatePositionRandom 12345 1000 2000] = 1"
    by (simp add: len invocations_def init_module_def setRandomSeed_def mulberry32_def
        createPositionRandom_def getRandom_def invoke_def Let_def)
  show ?thesis
    using n1 n2
      createPositionRandom_deterministic [OF prod.collapse [symmetric]
        prod.collapse [symmetric] n1 n2]
    by blast
qed

text \<open>
  Claim C9, as the code has it. The hash lies in \<open>[0, 2 ^ 32)\<close>. It is the seed, the
  floor of \<open>x\<close> and the floor of \<open>z\<close>, each reduced to 32 bits, combined by two
  rounds of xor and multiplication by an odd constant and then one round of
  xor-shift mixing (\<open>h ^= h >>> 16\<close>), every product reduced modulo
  \<open>2 ^ 32\<close>. The body of the function has two multiplications and one xor-shift.
\<close>

theorem hashPosition_structure:
  "hashPosition seed x z < 2 ^ 32
   \<and> int (hashPosition seed x z) =
       (let h0 = seed mod 2 ^ 32;
            h1 = ((h0 XOR (\<lfloor>x\<rfloor> mod 2 ^ 32)) * 0x85ebca6b) mod 2 ^ 32;
            h2 = ((h1 XOR (\<lfloor>z\<rfloor> mod 2 ^ 32)) * 0xc2b2ae35) mod 2 ^ 32
        in h2 XOR (h2 div 2 ^ 16))
   \<and> odd (0x85ebca6b :: int) \<and> odd (0xc2b2ae35 :: int)
   \<and> hashPosition seed x z = unat (fold mix (hashPosition_steps x z) (ToInt32 seed))
   \<and> length (filter is_imul (hashPosition_steps x z)) = 2
   \<and> length (filter is_xor_shift (hashPosition_steps x z)) = 1"
proof -
  have "length (filter is_imul (hashPosition_steps x z)) = 2"
    and "length (filter is_xor_shift (hashPosition_steps x z)) = 1"
    by (simp_all add: hashPosition_steps_def)
  moreover have "odd (0x85ebca6b :: int)" and "odd (0xc2b2ae35 :: int)"
    by simp_all
  ultimately show ?thesis
    using hashPosition_less [of seed x z] hashPosition_wraparound [of seed x z]
      hashPosition_as_steps [of seed x z]
    by blast
qed

text \<open>
  The body of \<open>hashPosition\<close> at seed 1 and position (2, 3): five steps, of which
  one is an xor-shift, not two.
\<close>

theorem hashPosition_two_xor_shift_rounds_counterexample:
  "hashPosition 1 2 3 = unat (fold mix (hashPosition_steps 2 3) (ToInt32 1))
   \<and> hashPosition_steps 2 3 =
       [XorWith 2, ImulBy 0x85ebca6b, XorWith 3, ImulBy 0xc2b2ae35, XorShiftRight 16]
   \<and> length (filter is_xor_shift (hashPosition_steps 2 3)) \<noteq> 2"
  by (simp add: hashPosition_as_steps) (simp add: hashPosition_steps_def ToInt32_def)

section \<open>Properties of the seed drawn for a new world\<close>

text \<open>Round-to-nearest adds at most half a unit of the last place.\<close>

lemma round_double_of_nat:
  "round_double (int a) =
     int ((if 2 * (a mod 2 ^ (floorlog 2 a - 53)) < 2 ^ (floorlog 2 a - 53)
              \<or> (2 * (a mod 2 ^ (floorlog 2 a - 53)) = 2 ^ (floorlog 2 a - 53)
                  \<and> even (a div 2 ^ (floorlog 2 a - 53)))
           then a div 2 ^ (floorlog 2 a - 53)
           else a div 2 ^ (floorlog 2 a - 53) + 1) * 2 ^ (floorlog 2 a - 53))"
proof (cases "a = 0")
  case True
  then show ?thesis
    by (simp add: round_double_def)
next
  case False
  then have "sgn (int a) = 1"
    by simp
  then show ?thesis
    by (simp add: round_double_def Let_def)
qed

lemma rounded_up_bound:
  fixes a e :: nat
  shows "(if 2 * (a mod 2 ^ e) < 2 ^ e \<or> (2 * (a mod 2 ^ e) = 2 ^ e \<and> even (a div 2 ^ e))
          then a div 2 ^ e else a div 2 ^ e + 1) * 2 ^ e
         \<le> a + 2 ^ e div 2"
proof -
  define p :: nat where "p = 2 ^ e"
  define q where "q = a div p"
  define r where "r = a mod p"
  have a: "a = q * p + r"
    by (simp add: q_def r_def)
  have r: "r < p"
    by (simp add: r_def p_def)
  have p: "p = 1 \<or> even p"
    by (cases e) (simp_all add: p_def)
  show ?thesis
  proof (cases "2 * r < p \<or> (2 * r = p \<and> even q)")
    case True
    then show ?thesis
      using a unfolding p_def [symmetric] q_def [symmetric] r_def [symmetric] by simp
  next
    case False
    then have h: "p \<le> 2 * r"
      by simp
    have "(q + 1) * p = q * p + p"
      by (simp add: algebra_simps)
    also have "\<dots> \<le> q * p + r + p div 2"
      using h r p by (elim disjE) (simp, presburger)
    finally show ?thesis
      using False a unfolding p_def [symmetric] q_def [symmetric] r_def [symmetric] by simp
  qed
qed

lemma round_double_upper:
  "round_double (int a) \<le> int (a + 2 ^ (floorlog 2 a - 53) div 2)"
  unfolding round_double_of_nat using rounded_up_bound [of a "floorlog 2 a - 53"]
  by (simp only: of_nat_le_iff)

lemma round_double_nonneg: "0 \<le> round_double (int a)"
  by (simp add: round_double_of_nat)

lemma generateWorldSeed_range:
  assumes "is_Math_random r"
  shows "0 \<le> generateWorldSeed r \<and> generateWorldSeed r < 1000000"
proof -
  define m where "m = draw_significand r"
  define j where "j = draw_scale r"
  define N where "N = m * 1000000"
  have m: "m < 2 ^ 53" "m < 2 ^ j"
    using assms by (simp_all add: is_Math_random_def m_def j_def)
  have "N < 2 ^ 53 * 1000000"
    using m(1) by (simp add: N_def)
  then have "N < 2 ^ 73"
    by simp
  then have "floorlog 2 N \<le> 73"
    by (intro floorlog_leI) simp_all
  then have "floorlog 2 N - 53 \<le> 20"
    by simp
  then have "(2::nat) ^ (floorlog 2 N - 53) \<le> 2 ^ 20"
    by (intro power_increasing) simp_all
  then have half: "(2::nat) ^ (floorlog 2 N - 53) div 2 \<le> 524288"
    by simp
  have "Suc m \<le> 2 ^ j"
    using m(2) by simp
  then have "Suc m * 1000000 \<le> 2 ^ j * 1000000"
    by (intro mult_le_mono1)
  then have "N + 1000000 \<le> 1000000 * 2 ^ j"
    by (simp add: N_def)
  then have lt: "N + 2 ^ (floorlog 2 N - 53) div 2 < 1000000 * 2 ^ j"
    using half by linarith
  obtain R where R: "round_double (int N) = int R"
    using round_double_of_nat [of N] by blast
  have "int R \<le> int (N + 2 ^ (floorlog 2 N - 53) div 2)"
    using round_double_upper [of N] R by simp
  then have "R < 1000000 * 2 ^ j"
    using lt by linarith
  then have "R div 2 ^ j < 1000000"
    by (intro less_mult_imp_div_less)
  moreover have "generateWorldSeed r = int (R div 2 ^ j)"
    using R by (simp add: generateWorldSeed_def N_def m_def j_def zdiv_int)
  ultimately show ?thesis
    by simp
qed

lemma generateWorldSeed_onto:
  assumes "n < 1000000"
  shows "is_Math_random \<lparr>draw_significand = (n * 2 ^ 30 + 999999) div 1000000, draw_scale = 30\<rparr>
       \<and> generateWorldSeed \<lparr>draw_significand = (n * 2 ^ 30 + 999999) div 1000000, draw_scale = 30\<rparr>
           = int n"
proof -
  define X :: nat where "X = n * 2 ^ 30 + 999999"
  define m where "m = X div 1000000"
  have X: "X = m * 1000000 + X mod 1000000" and Xm: "X mod 1000000 < 1000000"
    by (simp_all add: m_def)
  have lo: "n * 2 ^ 30 \<le> m * 1000000"
    using X Xm unfolding X_def by linarith
  have hi: "m * 1000000 < Suc n * 2 ^ 30"
    using X unfolding X_def by simp
  have "Suc n * 2 ^ 30 \<le> 1000000 * 2 ^ 30"
    using assms by simp
  then have "m * 1000000 < 2 ^ 30 * 1000000"
    using hi by simp
  then have m30: "m < 2 ^ 30"
    by simp
  then have ok: "is_Math_random \<lparr>draw_significand = m, draw_scale = 30\<rparr>"
    by (simp add: is_Math_random_def)
  have "m * 1000000 < 2 ^ 53"
    using m30 by simp
  then have "int (m * 1000000) < int (2 ^ 53)"
    by (simp only: of_nat_less_iff)
  then have "\<bar>int m * 1000000\<bar> < 2 ^ 53"
    by simp
  then have "round_double (int m * 1000000) = int m * 1000000"
    by (rule round_double_exact)
  moreover have "(m * 1000000) div 2 ^ 30 = n"
    using lo hi by (intro div_nat_eqI) (simp_all add: mult.commute)
  then have "int (m * 1000000) div int (2 ^ 30) = int n"
    by (metis zdiv_int)
  then have "(int m * 1000000) div 2 ^ 30 = int n"
    by simp
  ultimately have "generateWorldSeed \<lparr>draw_significand = m, draw_scale = 30\<rparr> = int n"
    by (simp add: generateWorldSeed_def)
  then show ?thesis
    using ok by (simp add: m_def X_def)
qed

text \<open>A value of \<open>Math.random()\<close> at which the rounding of the product shows: the exact
  product lies below 999998, the product of doubles is 999998.\<close>

lemma generateWorldSeed_rounds:
  "is_Math_random \<lparr>draw_significand = 4503590620171241, draw_scale = 52\<rparr>
   \<and> generateWorldSeed \<lparr>draw_significand = 4503590620171241, draw_scale = 52\<rparr> = 999998
   \<and> \<lfloor>draw_value \<lparr>draw_significand = 4503590620171241, draw_scale = 52\<rparr> * 1000000\<rfloor> = 999997"
proof -
  have le: "floorlog 2 (4503590620171241000000 :: nat) \<le> 72"
    by (intro floorlog_leI) simp_all
  have ge: "72 \<le> floorlog 2 (4503590620171241000000 :: nat)"
    by (intro floorlog_geI) simp_all
  have e: "floorlog 2 (4503590620171241000000 :: nat) - 53 = 19"
    using le ge by simp
  have "round_double (int 4503590620171241000000) = 4503590620171241259008"
    unfolding round_double_of_nat e by simp
  then have "generateWorldSeed \<lparr>draw_significand = 4503590620171241, draw_scale = 52\<rparr> = 999998"
    by (simp add: generateWorldSeed_def)
  moreover have "\<lfloor>draw_value \<lparr>draw_significand = 4503590620171241, draw_scale = 52\<rparr> * 1000000\<rfloor>
      = 999997"
    by (simp add: draw_value_def floor_eq_iff)
  ultimately show ?thesis
    by (simp add: is_Math_random_def)
qed

section \<open>Properties of the store and of the choice of the host\<close>

lemma apply_write_keeps_seed:
  "tbl i = Some w \<Longrightarrow> \<exists>w'. apply_write x tbl i = Some w' \<and> world_seed w' = world_seed w"
  by (cases x) (auto simp: insert_world_def update_owner_def split: option.splits)

lemma writes_keep_seed:
  "tbl i = Some w \<Longrightarrow> \<exists>w'. fold apply_write ws tbl i = Some w' \<and> world_seed w' = world_seed w"
proof (induction ws arbitrary: tbl w)
  case Nil
  then show ?case by simp
next
  case (Cons x ws)
  obtain w1 where w1: "apply_write x tbl i = Some w1" "world_seed w1 = world_seed w"
    using apply_write_keeps_seed [of tbl i w x] Cons.prems by blast
  obtain w2 where "fold apply_write ws (apply_write x tbl) i = Some w2"
      "world_seed w2 = world_seed w1"
    using Cons.IH [of "apply_write x tbl" w1] w1(1) by blast
  then show ?case
    using w1(2) by simp
qed

lemma update_owner_keeps_seed:
  "tbl i = Some w \<Longrightarrow> \<exists>w'. update_owner f tbl j p i = Some w' \<and> world_seed w' = world_seed w"
  by (auto simp: update_owner_def split: option.splits)

lemma insert_world_keeps_seed:
  "tbl i = Some w \<Longrightarrow> \<exists>w'. fst (insert_world f tbl j v) i = Some w' \<and> world_seed w' = world_seed w"
  by (auto simp: insert_world_def split: option.splits)

lemma resolve_world_table:
  "snd (resolve_world il ps r tbl m) =
     (let t1 = fold apply_write (before_write il) tbl
      in case fst (select_single (fetch_fails il) tbl (ROOM_ID m)) of
           Some w \<Rightarrow>
             if filter (\<lambda>pid. Some pid \<noteq> playerId m) (Object_keys ps) = []
                \<and> falsy (owner_player_id w)
             then update_owner (write_fails il) t1 (ROOM_ID m) (playerId m)
             else t1
         | None \<Rightarrow>
             (let ins = insert_world (write_fails il) t1 (ROOM_ID m)
                   \<lparr>world_seed = generateWorldSeed r, owner_player_id = playerId m,
                    world_name = ''Untitled World''\<rparr>
              in case snd ins of None \<Rightarrow> fst ins
                 | Some e \<Rightarrow> fold apply_write (before_reread il) (fst ins)))"
  by (simp add: resolve_world_def Let_def split: option.splits prod.splits)

lemma resolve_world_keeps_seed:
  assumes "tbl i = Some w"
  shows "\<exists>w'. snd (resolve_world il ps r tbl m) i = Some w' \<and> world_seed w' = world_seed w"
proof -
  obtain w1 where w1: "fold apply_write (before_write il) tbl i = Some w1"
      "world_seed w1 = world_seed w"
    using writes_keep_seed [of tbl i w "before_write il"] assms by blast
  have upd: "\<exists>w'. update_owner f (fold apply_write (before_write il) tbl) j p i = Some w'
      \<and> world_seed w' = world_seed w" for f j p
    using update_owner_keeps_seed [of "fold apply_write (before_write il) tbl" i w1 f j p]
      w1 by simp
  have ins: "\<exists>w'. fst (insert_world f (fold apply_write (before_write il) tbl) j v) i = Some w'
      \<and> world_seed w' = world_seed w" for f j v
    using insert_world_keeps_seed [of "fold apply_write (before_write il) tbl" i w1 f j v]
      w1 by simp
  have ins2: "\<exists>w'. fold apply_write ws
        (fst (insert_world f (fold apply_write (before_write il) tbl) j v)) i = Some w'
      \<and> world_seed w' = world_seed w" for f j v ws
  proof -
    obtain w2 where w2: "fst (insert_world f (fold apply_write (before_write il) tbl) j v) i = Some w2"
      "world_seed w2 = world_seed w"
      using ins by blast
    show ?thesis
      using writes_keep_seed
          [of "fst (insert_world f (fold apply_write (before_write il) tbl) j v)" i w2 ws]
        w2 by simp
  qed
  show ?thesis
    unfolding resolve_world_table Let_def
    using w1 upd ins ins2 by (auto split: option.splits)
qed

lemma init_table:
  "snd (init who now il ps r tbl m) =
     snd (resolve_world il ps r tbl
       (subscribed now
         ((load_identity who m)\<lparr>channel := Some (CHANNEL_NAME (load_identity who m)),
            spawnedPlayers := {}\<rparr>)))"
  by (simp add: init_def Let_def split: prod.splits)

lemma resolve_world_found:
  assumes "tbl (ROOM_ID m) = Some w" and "\<not> fetch_fails il"
  shows "resolve_world il ps r tbl m =
     (if filter (\<lambda>pid. Some pid \<noteq> playerId m) (Object_keys ps) = []
         \<and> falsy (owner_player_id w)
      then (m\<lparr>worldSeed := Some (world_seed w), isHost := True\<rparr>,
            update_owner (write_fails il) (fold apply_write (before_write il) tbl)
              (ROOM_ID m) (playerId m))
      else (m\<lparr>worldSeed := Some (world_seed w), isHost := (owner_player_id w = playerId m)\<rparr>,
            fold apply_write (before_write il) tbl))"
  using assms by (simp add: resolve_world_def select_single_def Let_def)

lemma resolve_world_not_found:
  assumes "fst (select_single (fetch_fails il) tbl (ROOM_ID m)) = None"
  shows "resolve_world il ps r tbl m =
     (let m1 = m\<lparr>worldSeed := Some (generateWorldSeed r), isHost := True\<rparr>;
          ins = insert_world (write_fails il) (fold apply_write (before_write il) tbl) (ROOM_ID m)
                  \<lparr>world_seed = generateWorldSeed r, owner_player_id = playerId m,
                   world_name = ''Untitled World''\<rparr>
      in case snd ins of
           None \<Rightarrow> (m1, fst ins)
         | Some e \<Rightarrow>
             (case fst (select_single (reread_fails il)
                          (fold apply_write (before_reread il) (fst ins)) (ROOM_ID m)) of
                Some rw \<Rightarrow> (m\<lparr>worldSeed := Some (world_seed rw), isHost := False\<rparr>,
                            fold apply_write (before_reread il) (fst ins))
              | None \<Rightarrow> (m1, fold apply_write (before_reread il) (fst ins))))"
proof -
  obtain e where s: "select_single (fetch_fails il) tbl (ROOM_ID m) = (None, e)"
    using assms by (cases "select_single (fetch_fails il) tbl (ROOM_ID m)") simp
  show ?thesis
    unfolding resolve_world_def Let_def s
    by (simp add: case_prod_beta split: option.splits)
qed

text \<open>
  Claim C2, as the code has it. When the first select finds the row of the room with
  no owner and the roster shows no other player, \<open>init\<close> sets \<open>isHost\<close>, adopts
  the seed, and sends an update of \<open>owner_player_id\<close> filtered by the id of the
  room alone. The test of the owner is the one made on the row that was read: whatever
  other managers wrote in between (\<open>before_write\<close>), the row at the time of the write
  gets this player as its owner.
\<close>

theorem host_claim_write_unconditional:
  assumes "tbl (ROOM_ID m) = Some w"
    and "falsy (owner_player_id w)"
    and "filter (\<lambda>pid. Some pid \<noteq> playerId m) (Object_keys ps) = []"
    and "\<not> fetch_fails il"
    and "\<not> write_fails il"
  shows "\<exists>w'. fold apply_write (before_write il) tbl (ROOM_ID m) = Some w'
          \<and> snd (resolve_world il ps r tbl m) =
              (fold apply_write (before_write il) tbl)
                (ROOM_ID m \<mapsto> w'\<lparr>owner_player_id := playerId m\<rparr>)
          \<and> isHost (fst (resolve_world il ps r tbl m))
          \<and> worldSeed (fst (resolve_world il ps r tbl m)) = Some (world_seed w)"
proof -
  obtain w' where w': "fold apply_write (before_write il) tbl (ROOM_ID m) = Some w'"
    using writes_keep_seed [of tbl "ROOM_ID m" w "before_write il"] assms(1) by blast
  show ?thesis
    using w' assms(2,3,5)
    using resolve_world_found [of tbl m w il ps r] assms(1,4)
    by (simp add: update_owner_def)
qed

text \<open>
  Claim C3, as the code has it. When the first select finds no row for the room,
  \<open>init\<close> draws a seed, \<open>Math.floor(Math.random() * 1000000)\<close>: an integer in
  \<open>[0, 1000000)\<close>, and every such integer for some value of \<open>Math.random()\<close>. It
  sends an insert of a row with that seed and this player as owner. If no row exists
  when the insert arrives and the request does not fail, the row is created and the
  manager is host with that seed. If a row exists by then (another manager inserted
  first), the insert is rejected and \<open>init\<close> selects again; when that select returns
  the row, \<open>init\<close> adopts the seed of the row with \<open>isHost = false\<close> and leaves
  the table as it is.
\<close>

theorem create_race_fallback:
  assumes "tbl (ROOM_ID m) = None"
  shows "(fold apply_write (before_write il) tbl (ROOM_ID m) = None \<and> \<not> write_fails il \<longrightarrow>
            resolve_world il ps r tbl m =
              (m\<lparr>worldSeed := Some (generateWorldSeed r), isHost := True\<rparr>,
               (fold apply_write (before_write il) tbl)
                 (ROOM_ID m \<mapsto> \<lparr>world_seed = generateWorldSeed r,
                                owner_player_id = playerId m,
                                world_name = ''Untitled World''\<rparr>)))
       \<and> (fold apply_write (before_write il) tbl (ROOM_ID m) \<noteq> None \<and> \<not> reread_fails il \<longrightarrow>
            (\<exists>rw. snd (resolve_world il ps r tbl m) (ROOM_ID m) = Some rw
               \<and> snd (resolve_world il ps r tbl m) =
                   fold apply_write (before_reread il) (fold apply_write (before_write il) tbl)
               \<and> fst (resolve_world il ps r tbl m) =
                   m\<lparr>worldSeed := Some (world_seed rw), isHost := False\<rparr>))
       \<and> (is_Math_random r \<longrightarrow> 0 \<le> generateWorldSeed r \<and> generateWorldSeed r < 1000000)
       \<and> (n < 1000000 \<longrightarrow> (\<exists>r'. is_Math_random r' \<and> generateWorldSeed r' = int n))"
proof (intro conjI impI)
  have nf: "fst (select_single (fetch_fails il) tbl (ROOM_ID m)) = None"
    using assms by (simp add: select_single_def)
  {
    assume "fold apply_write (before_write il) tbl (ROOM_ID m) = None \<and> \<not> write_fails il"
    then show "resolve_world il ps r tbl m =
              (m\<lparr>worldSeed := Some (generateWorldSeed r), isHost := True\<rparr>,
               (fold apply_write (before_write il) tbl)
                 (ROOM_ID m \<mapsto> \<lparr>world_seed = generateWorldSeed r,
                                owner_player_id = playerId m,
                                world_name = ''Untitled World''\<rparr>))"
      by (simp add: resolve_world_not_found [OF nf] insert_world_def Let_def)
  }
  {
    assume a: "fold apply_write (before_write il) tbl (ROOM_ID m) \<noteq> None \<and> \<not> reread_fails il"
    then obtain w1 where w1: "fold apply_write (before_write il) tbl (ROOM_ID m) = Some w1"
      by blast
    obtain rw where rw: "fold apply_write (before_reread il)
        (fold apply_write (before_write il) tbl) (ROOM_ID m) = Some rw"
      using writes_keep_seed [of "fold apply_write (before_write il) tbl" "ROOM_ID m" w1
          "before_reread il"] w1 by blast
    have ins: "insert_world (write_fails il) (fold apply_write (before_write il) tbl) (ROOM_ID m) v
        = (fold apply_write (before_write il) tbl,
           Some (if write_fails il then StoreFailure else UniqueViolation))" for v
      using w1 by (simp add: insert_world_def)
    show "\<exists>rw. snd (resolve_world il ps r tbl m) (ROOM_ID m) = Some rw
               \<and> snd (resolve_world il ps r tbl m) =
                   fold apply_write (before_reread il) (fold apply_write (before_write il) tbl)
               \<and> fst (resolve_world il ps r tbl m) =
                   m\<lparr>worldSeed := Some (world_seed rw), isHost := False\<rparr>"
      using rw a
      by (simp add: resolve_world_not_found [OF nf] ins select_single_def Let_def)
  }
  {
    assume "is_Math_random r"
    then show "0 \<le> generateWorldSeed r" and "generateWorldSeed r < 1000000"
      using generateWorldSeed_range [of r] by simp_all
  }
  {
    assume "n < 1000000"
    then show "\<exists>r'. is_Math_random r' \<and> generateWorldSeed r' = int n"
      using generateWorldSeed_onto [of n] by blast
  }
qed

text \<open>
  The adoption depends on what the second select returns. Here \<open>peerB\<close> creates the
  room with seed 7 before the insert of \<open>peerA\<close> arrives, the insert is rejected
  because the row exists, and the second select fails: \<open>peerA\<close> keeps the seed it drew
  and \<open>isHost = true\<close>, while the row of the room has seed 7 and owner \<open>peerB\<close>.
\<close>

theorem create_race_reread_fails_counterexample:
  "[''room-2'' \<mapsto> unowned_world] (ROOM_ID peerA) = None
   \<and> fold apply_write [InsertWorld ''room-1'' world_of_peerB]
        [''room-2'' \<mapsto> unowned_world] (ROOM_ID peerA) = Some world_of_peerB
   \<and> snd (insert_world False
            (fold apply_write [InsertWorld ''room-1'' world_of_peerB] [''room-2'' \<mapsto> unowned_world])
            (ROOM_ID peerA)
            \<lparr>world_seed = generateWorldSeed half, owner_player_id = playerId peerA,
             world_name = ''Untitled World''\<rparr>) = Some UniqueViolation
   \<and> snd (resolve_world
            (quiet\<lparr>before_write := [InsertWorld ''room-1'' world_of_peerB], reread_fails := True\<rparr>)
            [] half [''room-2'' \<mapsto> unowned_world] peerA) (ROOM_ID peerA) = Some world_of_peerB
   \<and> worldSeed (fst (resolve_world
            (quiet\<lparr>before_write := [InsertWorld ''room-1'' world_of_peerB], reread_fails := True\<rparr>)
            [] half [''room-2'' \<mapsto> unowned_world] peerA)) = Some 500000
   \<and> worldSeed (fst (resolve_world
            (quiet\<lparr>before_write := [InsertWorld ''room-1'' world_of_peerB], reread_fails := True\<rparr>)
            [] half [''room-2'' \<mapsto> unowned_world] peerA)) \<noteq> Some (world_seed world_of_peerB)
   \<and> isHost (fst (resolve_world
            (quiet\<lparr>before_write := [InsertWorld ''room-1'' world_of_peerB], reread_fails := True\<rparr>)
            [] half [''room-2'' \<mapsto> unowned_world] peerA))"
proof -
  have g: "generateWorldSeed half = 500000"
    by (simp add: generateWorldSeed_def half_def round_double_exact)
  show ?thesis
    by (simp add: resolve_world_def select_single_def insert_world_def Let_def quiet_def
        peerA_def new_manager_def world_of_peerB_def g)
qed

text \<open>
  Claim C8. For a room that has a row: the update of the owner leaves the seed of the
  row as it is; an insert for that room is rejected and writes nothing; so after any
  sequence of writes that managers send, and after a whole run of \<open>init\<close> with any
  writes of other managers in between, the row is there with the seed it had.
\<close>

theorem seed_never_changes:
  assumes "tbl i = Some w"
  shows "(\<exists>w'. update_owner f tbl j p i = Some w' \<and> world_seed w' = world_seed w)
       \<and> fst (insert_world f tbl i v) = tbl \<and> snd (insert_world f tbl i v) \<noteq> None
       \<and> (\<exists>w'. fold apply_write ws tbl i = Some w' \<and> world_seed w' = world_seed w)
       \<and> (\<exists>w'. snd (init who now il ps r tbl m) i = Some w' \<and> world_seed w' = world_seed w)"
proof -
  have "fst (insert_world f tbl i v) = tbl \<and> snd (insert_world f tbl i v) \<noteq> None"
    using assms by (simp add: insert_world_def)
  moreover have "\<exists>w'. snd (init who now il ps r tbl m) i = Some w' \<and> world_seed w' = world_seed w"
    unfolding init_table using assms by (rule resolve_world_keeps_seed)
  ultimately show ?thesis
    using update_owner_keeps_seed [of tbl i w f j p] writes_keep_seed [of tbl i w ws] assms
    by blast
qed

text \<open>
  The write is not conditional on the owner at the time of the write. Here \<open>peerB\<close>
  claims the room between the select and the update of \<open>peerA\<close>: the update of
  \<open>peerA\<close> replaces the owner \<open>peerB\<close>, and \<open>peerA\<close> believes it is the host.
\<close>

theorem host_claim_overwrites_counterexample:
  "fold apply_write (before_write (quiet\<lparr>before_write := [UpdateOwner ''room-1'' (Some ''peerB'')]\<rparr>))
       [''room-1'' \<mapsto> unowned_world] ''room-1''
     = Some (unowned_world\<lparr>owner_player_id := Some ''peerB''\<rparr>)
   \<and> snd (resolve_world (quiet\<lparr>before_write := [UpdateOwner ''room-1'' (Some ''peerB'')]\<rparr>)
            [] half [''room-1'' \<mapsto> unowned_world] peerA) ''room-1''
     = Some (unowned_world\<lparr>owner_player_id := Some ''peerA''\<rparr>)
   \<and> isHost (fst (resolve_world (quiet\<lparr>before_write := [UpdateOwner ''room-1'' (Some ''peerB'')]\<rparr>)
            [] half [''room-1'' \<mapsto> unowned_world] peerA))"
  by (simp add: resolve_world_def select_single_def update_owner_def Let_def quiet_def
      peerA_def new_manager_def unowned_world_def falsy_def)

text \<open>The same run as an instance of the theorem.\<close>

theorem host_claim_write_unconditional_witness:
  "[''room-1'' \<mapsto> unowned_world] (ROOM_ID peerA) = Some unowned_world
   \<and> falsy (owner_player_id unowned_world)
   \<and> filter (\<lambda>pid. Some pid \<noteq> playerId peerA) (Object_keys []) = []
   \<and> \<not> fetch_fails (quiet\<lparr>before_write := [UpdateOwner ''room-1'' (Some ''peerB'')]\<rparr>)
   \<and> \<not> write_fails (quiet\<lparr>before_write := [UpdateOwner ''room-1'' (Some ''peerB'')]\<rparr>)
   \<and> (\<exists>w'. fold apply_write
              (before_write (quiet\<lparr>before_write := [UpdateOwner ''room-1'' (Some ''peerB'')]\<rparr>))
              [''room-1'' \<mapsto> unowned_world] (ROOM_ID peerA) = Some w'
          \<and> owner_player_id w' = Some ''peerB''
          \<and> snd (resolve_world (quiet\<lparr>before_write := [UpdateOwner ''room-1'' (Some ''peerB'')]\<rparr>)
                 [] half [''room-1'' \<mapsto> unowned_world] peerA) =
              (fold apply_write
                 (before_write (quiet\<lparr>before_write := [UpdateOwner ''room-1'' (Some ''peerB'')]\<rparr>))
                 [''room-1'' \<mapsto> unowned_world])
                (ROOM_ID peerA \<mapsto> w'\<lparr>owner_player_id := playerId peerA\<rparr>))"
proof -
  let ?il = "quiet\<lparr>before_write := [UpdateOwner ''room-1'' (Some ''peerB'')]\<rparr>"
  let ?tbl = "[''room-1'' \<mapsto> unowned_world]"
  have h1: "?tbl (ROOM_ID peerA) = Some unowned_world"
    by (simp add: peerA_def new_manager_def)
  have h2: "falsy (owner_player_id unowned_world)"
    by (simp add: falsy_def unowned_world_def)
  have h3: "filter (\<lambda>pid. Some pid \<noteq> playerId peerA) (Object_keys []) = []"
    by simp
  have h4: "\<not> fetch_fails ?il" and h5: "\<not> write_fails ?il"
    by (simp_all add: quiet_def)
  have w: "fold apply_write (before_write ?il) ?tbl (ROOM_ID peerA)
      = Some (unowned_world\<lparr>owner_player_id := Some ''peerB''\<rparr>)"
    by (simp add: update_owner_def peerA_def new_manager_def)
  show ?thesis
    using host_claim_write_unconditional [of ?tbl peerA unowned_world "[]" ?il half, OF h1 h2 h3 h4 h5]
      h1 h2 h3 h4 h5 w
    by auto
qed

text \<open>Two runs of \<open>peerA\<close> on a table without its room: in the first, \<open>peerB\<close>
  creates the room with seed 7 before the insert of \<open>peerA\<close> arrives; in the second
  nothing happens in between and \<open>Math.random()\<close> is one half.\<close>

theorem create_race_fallback_witness:
  "[''room-2'' \<mapsto> unowned_world] (ROOM_ID peerA) = None
   \<and> fold apply_write (before_write (quiet\<lparr>before_write := [InsertWorld ''room-1'' world_of_peerB]\<rparr>))
        [''room-2'' \<mapsto> unowned_world] (ROOM_ID peerA) \<noteq> None
   \<and> \<not> reread_fails (quiet\<lparr>before_write := [InsertWorld ''room-1'' world_of_peerB]\<rparr>)
   \<and> worldSeed (fst (resolve_world (quiet\<lparr>before_write := [InsertWorld ''room-1'' world_of_peerB]\<rparr>)
        [] half [''room-2'' \<mapsto> unowned_world] peerA)) = Some 7
   \<and> \<not> isHost (fst (resolve_world (quiet\<lparr>before_write := [InsertWorld ''room-1'' world_of_peerB]\<rparr>)
        [] half [''room-2'' \<mapsto> unowned_world] peerA))
   \<and> fold apply_write (before_write quiet) [''room-2'' \<mapsto> unowned_world] (ROOM_ID peerA) = None
   \<and> \<not> write_fails quiet
   \<and> resolve_world quiet [] half [''room-2'' \<mapsto> unowned_world] peerA =
       (peerA\<lparr>worldSeed := Some 500000, isHost := True\<rparr>,
        [''room-2'' \<mapsto> unowned_world,
         ''room-1'' \<mapsto> \<lparr>world_seed = 500000, owner_player_id = Some ''peerA'',
                          world_name = ''Untitled World''\<rparr>])
   \<and> is_Math_random half
   \<and> 0 \<le> generateWorldSeed half \<and> generateWorldSeed half < 1000000
   \<and> (42 :: nat) < 1000000
   \<and> (\<exists>r'. is_Math_random r' \<and> generateWorldSeed r' = int 42)"
proof -
  let ?il = "quiet\<lparr>before_write := [InsertWorld ''room-1'' world_of_peerB]\<rparr>"
  let ?tbl = "[''room-2'' \<mapsto> unowned_world]"
  have room: "ROOM_ID peerA = ''room-1''"
    by (simp add: peerA_def new_manager_def)
  have h1: "?tbl (ROOM_ID peerA) = None"
    by (simp add: room)
  have t1: "fold apply_write (before_write ?il) ?tbl
      = [''room-2'' \<mapsto> unowned_world, ''room-1'' \<mapsto> world_of_peerB]"
    by (simp add: insert_world_def)
  have h2: "fold apply_write (before_write ?il) ?tbl (ROOM_ID peerA) \<noteq> None"
    by (simp only: t1) (simp add: peerA_def new_manager_def)
  have h3: "\<not> reread_fails ?il"
    by (simp add: quiet_def)
  have q1: "fold apply_write (before_write quiet) ?tbl (ROOM_ID peerA) = None"
    and q2: "\<not> write_fails quiet"
    by (simp_all add: quiet_def room)
  have g: "generateWorldSeed half = 500000"
    by (simp add: generateWorldSeed_def half_def round_double_exact)
  have h4: "is_Math_random half"
    by (simp add: is_Math_random_def half_def)
  have h5: "(42 :: nat) < 1000000"
    by simp
  note a = create_race_fallback [of ?tbl peerA ?il "[]" half 42, OF h1]
  note b = create_race_fallback [of ?tbl peerA quiet "[]" half 42, OF h1]
  have e: "fold apply_write (before_reread ?il) (fold apply_write (before_write ?il) ?tbl)
      = [''room-2'' \<mapsto> unowned_world, ''room-1'' \<mapsto> world_of_peerB]"
    by (simp only: t1) (simp add: quiet_def)
  obtain rw where rw: "snd (resolve_world ?il [] half ?tbl peerA) (ROOM_ID peerA) = Some rw"
    "snd (resolve_world ?il [] half ?tbl peerA) =
       fold apply_write (before_reread ?il) (fold apply_write (before_write ?il) ?tbl)"
    "fst (resolve_world ?il [] half ?tbl peerA) =
       peerA\<lparr>worldSeed := Some (world_seed rw), isHost := False\<rparr>"
    using a h2 h3 by blast
  have "rw = world_of_peerB"
    using rw(1) unfolding rw(2) e room by simp
  then have race: "worldSeed (fst (resolve_world ?il [] half ?tbl peerA)) = Some 7
      \<and> \<not> isHost (fst (resolve_world ?il [] half ?tbl peerA))"
    unfolding rw(3) by (simp add: world_of_peerB_def)
  have made: "resolve_world quiet [] half ?tbl peerA =
       (peerA\<lparr>worldSeed := Some 500000, isHost := True\<rparr>,
        [''room-2'' \<mapsto> unowned_world,
         ''room-1'' \<mapsto> \<lparr>world_seed = 500000, owner_player_id = Some ''peerA'',
                          world_name = ''Untitled World''\<rparr>])"
    using b q1 q2 by (simp add: g quiet_def peerA_def new_manager_def)
  have range: "0 \<le> generateWorldSeed half \<and> generateWorldSeed half < 1000000"
    using a h4 by blast
  have onto: "\<exists>r'. is_Math_random r' \<and> generateWorldSeed r' = int 42"
    using a h5 by blast
  show ?thesis
    using h1 h2 h3 race q1 q2 made h4 range h5 onto by blast
qed

text \<open>An instance: a room with seed 42, a second insert and two claims.\<close>

theorem seed_never_changes_witness:
  "[''room-1'' \<mapsto> unowned_world] ''room-1'' = Some unowned_world
   \<and> (\<exists>w'. update_owner False [''room-1'' \<mapsto> unowned_world] ''room-1'' (Some ''peerA'') ''room-1''
              = Some w' \<and> world_seed w' = world_seed unowned_world)
   \<and> fst (insert_world False [''room-1'' \<mapsto> unowned_world] ''room-1'' world_of_peerB)
       = [''room-1'' \<mapsto> unowned_world]
   \<and> snd (insert_world False [''room-1'' \<mapsto> unowned_world] ''room-1'' world_of_peerB) \<noteq> None
   \<and> (\<exists>w'. fold apply_write
              [InsertWorld ''room-1'' world_of_peerB, UpdateOwner ''room-1'' (Some ''peerB'')]
              [''room-1'' \<mapsto> unowned_world] ''room-1'' = Some w'
          \<and> world_seed w' = world_seed unowned_world)
   \<and> (\<exists>w'. snd (init identityA 1000 quiet [] half [''room-1'' \<mapsto> unowned_world]
                  (new_manager ''room-1'')) ''room-1'' = Some w'
          \<and> world_seed w' = world_seed unowned_world)"
proof -
  have h: "[''room-1'' \<mapsto> unowned_world] ''room-1'' = Some unowned_world"
    by simp
  show ?thesis
    using seed_never_changes [of "[''room-1'' \<mapsto> unowned_world]" "''room-1''" unowned_world
        False "''room-1''" "Some ''peerA''" world_of_peerB
        "[InsertWorld ''room-1'' world_of_peerB, UpdateOwner ''room-1'' (Some ''peerB'')]"
        identityA 1000 quiet "[]" half "new_manager ''room-1''", OF h]
    by (rule conjI [OF h])
qed

section \<open>Properties of the manager\<close>

lemma since_append: "effects m' = effects m @ es \<Longrightarrow> since m m' = es"
  by (simp add: since_def)

lemma distinct_Object_keys: "distinct (Object_keys state)"
  by (induction state rule: Object_keys.induct) auto

lemma sync_activity:
  "js_or (case p of None \<Rightarrow> None | Some q \<Rightarrow> lastActive q)
     (js_or (case p of None \<Rightarrow> None | Some q \<Rightarrow> joinedAt q) 0) = last_activity p"
  by (simp add: last_activity_def js_or_def split: option.splits)

text \<open>One turn of the loop of the sync handler, seen from another player id.\<close>

lemma sync_player_other:
  "\<exists>es. effects (sync_player now state q m) = effects m @ es
     \<and> (q \<noteq> pid \<longrightarrow> filter (is_join_of pid) es = [] \<and> filter (is_update_of pid) es = [])
     \<and> playerId (sync_player now state q m) = playerId m
     \<and> onPlayerPresenceUpdate (sync_player now state q m) = onPlayerPresenceUpdate m
     \<and> (q \<noteq> pid \<longrightarrow>
          (pid \<in> spawnedPlayers (sync_player now state q m)) = (pid \<in> spawnedPlayers m))"
  by (simp add: sync_player_def Let_def)

lemma sync_player_stale:
  "now - last_activity (first_presence state pid) > STALE_THRESHOLD
     \<Longrightarrow> sync_player now state pid m = m"
  by (simp add: sync_player_def Let_def sync_activity)

lemma sync_player_known:
  assumes "pid \<in> spawnedPlayers m" and "Some pid \<noteq> playerId m"
    and "\<not> now - last_activity (first_presence state pid) > STALE_THRESHOLD"
    and "onPlayerPresenceUpdate m"
  shows "sync_player now state pid m =
     m\<lparr>effects := effects m @ [CallOnPlayerPresenceUpdate pid (first_presence state pid)]\<rparr>"
  using assms by (simp add: sync_player_def Let_def sync_activity)

lemma sync_loop_stale:
  assumes "now - last_activity (first_presence state pid) > STALE_THRESHOLD"
  shows "\<exists>es. effects (fold (sync_player now state) ks m) = effects m @ es
     \<and> filter (is_join_of pid) es = []
     \<and> (pid \<in> spawnedPlayers (fold (sync_player now state) ks m)) = (pid \<in> spawnedPlayers m)"
proof (induction ks arbitrary: m)
  case Nil
  then show ?case by simp
next
  case (Cons q ks)
  let ?m1 = "sync_player now state q m"
  obtain es1 where s1: "effects ?m1 = effects m @ es1"
      "filter (is_join_of pid) es1 = []"
      "(pid \<in> spawnedPlayers ?m1) = (pid \<in> spawnedPlayers m)"
  proof (cases "q = pid")
    case True
    then have "?m1 = m"
      using assms by (simp add: sync_player_stale)
    then show ?thesis
      using that [of "[]"] by simp
  next
    case False
    then show ?thesis
      using sync_player_other [of now state q m pid] that by blast
  qed
  obtain es2 where s2: "effects (fold (sync_player now state) ks ?m1) = effects ?m1 @ es2"
      "filter (is_join_of pid) es2 = []"
      "(pid \<in> spawnedPlayers (fold (sync_player now state) ks ?m1)) = (pid \<in> spawnedPlayers ?m1)"
    using Cons.IH [of ?m1] by blast
  show ?case
    using s1 s2 by simp
qed

lemma sync_loop_known:
  assumes "\<not> now - last_activity (first_presence state pid) > STALE_THRESHOLD"
    and "distinct ks"
    and "pid \<in> spawnedPlayers m" and "Some pid \<noteq> playerId m" and "onPlayerPresenceUpdate m"
  shows "\<exists>es. effects (fold (sync_player now state) ks m) = effects m @ es
     \<and> filter (is_join_of pid) es = []
     \<and> filter (is_update_of pid) es =
         (if pid \<in> set ks then [CallOnPlayerPresenceUpdate pid (first_presence state pid)] else [])"
  using assms(2-)
proof (induction ks arbitrary: m)
  case Nil
  then show ?case by simp
next
  case (Cons q ks)
  let ?m1 = "sync_player now state q m"
  have d: "distinct ks" and q: "q \<notin> set ks"
    using Cons.prems(1) by simp_all
  obtain es1 where s1: "effects ?m1 = effects m @ es1"
      "filter (is_join_of pid) es1 = []"
      "filter (is_update_of pid) es1 =
         (if q = pid then [CallOnPlayerPresenceUpdate pid (first_presence state pid)] else [])"
      "pid \<in> spawnedPlayers ?m1" "Some pid \<noteq> playerId ?m1" "onPlayerPresenceUpdate ?m1"
  proof (cases "q = pid")
    case True
    have "?m1 = m\<lparr>effects := effects m
        @ [CallOnPlayerPresenceUpdate pid (first_presence state pid)]\<rparr>"
      using sync_player_known [of pid m now state] Cons.prems(2,3,4) assms(1) True by simp
    then show ?thesis
      using that [of "[CallOnPlayerPresenceUpdate pid (first_presence state pid)]"]
        True Cons.prems(2,3,4) by simp
  next
    case False
    then show ?thesis
      using sync_player_other [of now state q m pid] that Cons.prems(2,3,4) by auto
  qed
  obtain es2 where s2: "effects (fold (sync_player now state) ks ?m1) = effects ?m1 @ es2"
      "filter (is_join_of pid) es2 = []"
      "filter (is_update_of pid) es2 =
         (if pid \<in> set ks then [CallOnPlayerPresenceUpdate pid (first_presence state pid)] else [])"
    using Cons.IH [of ?m1, OF d s1(4,5,6)] by blast
  show ?case
    using s1(1,2,3) s2 q by auto
qed

text \<open>
  Claim C5. The last activity of an entry is read as the handlers read it,
  \<open>lastActive || joinedAt || 0\<close>: \<open>lastActive\<close>, or \<open>joinedAt\<close> when
  \<open>lastActive\<close> is missing (or 0), or 0 when both are. When that time is more than
  300000 ms before \<open>now\<close>, a sync event neither adds the player to \<open>spawnedPlayers\<close>
  nor calls \<open>onPlayerJoin\<close> for it, whatever else the roster holds, and a join event
  for it changes nothing at all.
\<close>

theorem stale_entry_excluded:
  "(now - last_activity (first_presence state pid) > 300000 \<longrightarrow>
      (pid \<in> spawnedPlayers (presence_sync now state m)) = (pid \<in> spawnedPlayers m)
      \<and> filter (is_join_of pid) (since m (presence_sync now state m)) = [])
   \<and> (now - last_activity (case newPresences of [] \<Rightarrow> None | p # ps \<Rightarrow> Some p) > 300000 \<longrightarrow>
        presence_join now pid newPresences m = m)"
proof (intro conjI impI)
  assume "now - last_activity (first_presence state pid) > 300000"
  then have st: "now - last_activity (first_presence state pid) > STALE_THRESHOLD"
    by (simp add: STALE_THRESHOLD_def)
  obtain es where es: "effects (presence_sync now state m) = effects m @ es"
      "filter (is_join_of pid) es = []"
      "(pid \<in> spawnedPlayers (presence_sync now state m)) = (pid \<in> spawnedPlayers m)"
    unfolding presence_sync_def using sync_loop_stale [OF st, of "Object_keys state" m] by blast
  show "(pid \<in> spawnedPlayers (presence_sync now state m)) = (pid \<in> spawnedPlayers m)"
    by (rule es(3))
  show "filter (is_join_of pid) (since m (presence_sync now state m)) = []"
    using since_append [OF es(1)] es(2) by simp
next
  assume "now - last_activity (case newPresences of [] \<Rightarrow> None | p # ps \<Rightarrow> Some p) > 300000"
  then show "presence_join now pid newPresences m = m"
    by (simp add: presence_join_def Let_def)
qed

text \<open>
  Claim C7. When a sync event reports a player that is in \<open>spawnedPlayers\<close> already
  and is not stale, and a presence-update callback is set, the handler calls
  \<open>onPlayerPresenceUpdate\<close> for that player exactly once, with the entry of the
  roster, and calls \<open>onPlayerJoin\<close> for it not at all.
\<close>

theorem known_peer_is_update:
  assumes "pid \<in> set (Object_keys state)"
    and "pid \<in> spawnedPlayers m"
    and "Some pid \<noteq> playerId m"
    and "\<not> now - last_activity (first_presence state pid) > 300000"
    and "onPlayerPresenceUpdate m"
  shows "filter (is_update_of pid) (since m (presence_sync now state m))
           = [CallOnPlayerPresenceUpdate pid (first_presence state pid)]
       \<and> length (filter (is_update_of pid) (since m (presence_sync now state m))) = 1
       \<and> length (filter (is_join_of pid) (since m (presence_sync now state m))) = 0"
proof -
  have st: "\<not> now - last_activity (first_presence state pid) > STALE_THRESHOLD"
    using assms(4) by (simp add: STALE_THRESHOLD_def)
  obtain es where es: "effects (presence_sync now state m) = effects m @ es"
      "filter (is_join_of pid) es = []"
      "filter (is_update_of pid) es =
         (if pid \<in> set (Object_keys state)
          then [CallOnPlayerPresenceUpdate pid (first_presence state pid)] else [])"
    unfolding presence_sync_def
    using sync_loop_known [OF st distinct_Object_keys assms(2,3,5), of state] by blast
  show ?thesis
    using since_append [OF es(1)] es(2,3) assms(1) by simp
qed

lemma joinedA_eq:
  "joinedA =
     \<lparr>ROOM_ID = ''room-1'',
      CHANNEL_NAME = ''game_room_room-1'',
      channel = Some ''game_room_room-1'',
      playerId = Some ''peerA'',
      playerName = Some ''HappyBunny'',
      playerColor = None,
      playerAccessories = [],
      isHost = True,
      worldSeed = Some 500000,
      lastBroadcastTime = 0,
      currentWorldId = ''room-1'',
      onPlayerJoin = True,
      onPlayerLeave = False,
      onPlayerMove = False,
      onPlayerPresenceUpdate = True,
      onWorldSeedReceived = False,
      onChatMessage = False,
      onPing = False,
      onTeleportRequest = False,
      onTeleportResponse = False,
      spawnedPlayers = {},
      timers = [SetInterval (HeartbeatTask 1000) 20000, SetTimeout DelayedSyncTask 500],
      effects = [Track \<lparr>presence_playerId = Some ''peerA'',
                         presence_playerName = Some ''HappyBunny'',
                         presence_playerColor = None,
                         presence_playerAccessories = Some [],
                         joinedAt = Some 1000,
                         lastActive = Some 1000\<rparr>]\<rparr>"
  by (simp add: joinedA_def init_def load_identity_def getPlayerColor_def subscribed_def
      own_presence_def resolve_world_def select_single_def insert_world_def
      generateWorldSeed_def half_def round_double_exact quiet_def identityA_def
      setOnPlayerJoin_def setOnPlayerPresenceUpdate_def new_manager_def Let_def)

text \<open>An instance: at time 500000 the roster reports \<open>p1\<close>, last active at 100000,
  that is 400 s ago; \<open>p1\<close> is not spawned and no join callback is called.\<close>

theorem stale_entry_excluded_witness:
  "500000 - last_activity (first_presence [(''p1'', [presence_p1 ''#4ecdc4'' 100000])] ''p1'') > 300000
   \<and> (''p1'' \<in> spawnedPlayers (presence_sync 500000 [(''p1'', [presence_p1 ''#4ecdc4'' 100000])] joinedA))
       = (''p1'' \<in> spawnedPlayers joinedA)
   \<and> ''p1'' \<notin> spawnedPlayers joinedA
   \<and> filter (is_join_of ''p1'')
        (since joinedA (presence_sync 500000 [(''p1'', [presence_p1 ''#4ecdc4'' 100000])] joinedA)) = []
   \<and> 500000 - last_activity (case [presence_p1 ''#4ecdc4'' 100000] of [] \<Rightarrow> None | p # ps \<Rightarrow> Some p)
       > 300000
   \<and> presence_join 500000 ''p1'' [presence_p1 ''#4ecdc4'' 100000] joinedA = joinedA"
proof -
  have h1: "500000 - last_activity (first_presence [(''p1'', [presence_p1 ''#4ecdc4'' 100000])] ''p1'')
      > 300000"
    by (simp add: first_presence_def last_activity_def js_or_def presence_p1_def)
  have h2: "500000 - last_activity
      (case [presence_p1 ''#4ecdc4'' 100000] of [] \<Rightarrow> None | p # ps \<Rightarrow> Some p) > 300000"
    by (simp add: last_activity_def js_or_def presence_p1_def)
  have h3: "''p1'' \<notin> spawnedPlayers joinedA"
    by (simp add: joinedA_eq)
  show ?thesis
    using h1 h2 h3
      stale_entry_excluded [of 500000 "[(''p1'', [presence_p1 ''#4ecdc4'' 100000])]" "''p1''"
        joinedA "[presence_p1 ''#4ecdc4'' 100000]"]
    by blast
qed

text \<open>An instance: a first sync spawns \<open>p1\<close>; \<open>p1\<close> changes its colour to
  \<open>#ff0000\<close>; the next sync calls the update callback once, with the new colour.\<close>

theorem known_peer_is_update_witness:
  "''p1'' \<in> set (Object_keys [(''p1'', [presence_p1 ''#ff0000'' 3000])])
   \<and> ''p1'' \<in> spawnedPlayers (presence_sync 2000 [(''p1'', [presence_p1 ''#4ecdc4'' 1000])] joinedA)
   \<and> Some ''p1'' \<noteq> playerId (presence_sync 2000 [(''p1'', [presence_p1 ''#4ecdc4'' 1000])] joinedA)
   \<and> \<not> 3000 - last_activity (first_presence [(''p1'', [presence_p1 ''#ff0000'' 3000])] ''p1'') > 300000
   \<and> onPlayerPresenceUpdate (presence_sync 2000 [(''p1'', [presence_p1 ''#4ecdc4'' 1000])] joinedA)
   \<and> filter (is_update_of ''p1'')
        (since (presence_sync 2000 [(''p1'', [presence_p1 ''#4ecdc4'' 1000])] joinedA)
           (presence_sync 3000 [(''p1'', [presence_p1 ''#ff0000'' 3000])]
              (presence_sync 2000 [(''p1'', [presence_p1 ''#4ecdc4'' 1000])] joinedA)))
       = [CallOnPlayerPresenceUpdate ''p1'' (Some (presence_p1 ''#ff0000'' 3000))]
   \<and> length (filter (is_join_of ''p1'')
        (since (presence_sync 2000 [(''p1'', [presence_p1 ''#4ecdc4'' 1000])] joinedA)
           (presence_sync 3000 [(''p1'', [presence_p1 ''#ff0000'' 3000])]
              (presence_sync 2000 [(''p1'', [presence_p1 ''#4ecdc4'' 1000])] joinedA)))) = 0"
proof -
  let ?m1 = "presence_sync 2000 [(''p1'', [presence_p1 ''#4ecdc4'' 1000])] joinedA"
  have m1: "?m1 = joinedA\<lparr>spawnedPlayers := {''p1''},
      effects := effects joinedA @ [CallOnPlayerJoin ''p1'' (Some (presence_p1 ''#4ecdc4'' 1000))]\<rparr>"
    by (simp add: presence_sync_def sync_player_def first_presence_def js_or_def
        STALE_THRESHOLD_def Let_def joinedA_eq presence_p1_def)
  have h1: "''p1'' \<in> set (Object_keys [(''p1'', [presence_p1 ''#ff0000'' 3000])])"
    by simp
  have h2: "''p1'' \<in> spawnedPlayers ?m1"
    unfolding m1 by simp
  have h3: "Some ''p1'' \<noteq> playerId ?m1"
    unfolding m1 by (simp add: joinedA_eq)
  have h4: "\<not> 3000 - last_activity (first_presence [(''p1'', [presence_p1 ''#ff0000'' 3000])] ''p1'')
      > 300000"
    by (simp add: first_presence_def last_activity_def js_or_def presence_p1_def)
  have h5: "onPlayerPresenceUpdate ?m1"
    unfolding m1 by (simp add: joinedA_eq)
  have fp: "first_presence [(''p1'', [presence_p1 ''#ff0000'' 3000])] ''p1''
      = Some (presence_p1 ''#ff0000'' 3000)"
    by (simp add: first_presence_def)
  show ?thesis
    using h1 h2 h3 h4 h5
      known_peer_is_update [of "''p1''" "[(''p1'', [presence_p1 ''#ff0000'' 3000])]" ?m1 3000,
        OF h1 h2 h3 h4 h5]
    unfolding fp by blast
qed

text \<open>
  Claim C4. Two calls of \<open>broadcastPosition\<close> on an open channel, at times \<open>t1\<close>
  and \<open>t2\<close>, the first of them accepted (as on a new manager, whose
  \<open>lastBroadcastTime\<close> is 0): the first call sends one message; if the second comes
  less than 50 ms after it, the second call changes nothing (it is dropped, and no
  state keeps it for later) and one message was sent; otherwise two were.
\<close>

theorem broadcastPosition_throttle:
  assumes "channel m \<noteq> None" and "50 \<le> t1 - lastBroadcastTime m"
  shows "since m (broadcastPosition t1 p1 m) = [SendPlayerMove (playerId m) p1 t1]
       \<and> length (filter is_send (since m (broadcastPosition t2 p2 (broadcastPosition t1 p1 m))))
           = (if t2 - t1 < 50 then 1 else 2)
       \<and> (t2 - t1 < 50 \<longrightarrow>
            broadcastPosition t2 p2 (broadcastPosition t1 p1 m) = broadcastPosition t1 p1 m)"
  using assms
  by (auto simp: broadcastPosition_def BROADCAST_THROTTLE_MS_def since_def)

text \<open>An instance, after \<open>init\<close>: a second call 49 ms after the first, and one 50 ms
  after.\<close>

theorem broadcastPosition_throttle_witness:
  "channel joinedA \<noteq> None
   \<and> 50 \<le> 1700000000000 - lastBroadcastTime joinedA
   \<and> length (filter is_send (since joinedA
        (broadcastPosition 1700000000049 still (broadcastPosition 1700000000000 still joinedA)))) = 1
   \<and> length (filter is_send (since joinedA
        (broadcastPosition 1700000000050 still (broadcastPosition 1700000000000 still joinedA)))) = 2"
proof -
  have h1: "channel joinedA \<noteq> None" and h2: "50 \<le> 1700000000000 - lastBroadcastTime joinedA"
    by (simp_all add: joinedA_eq)
  show ?thesis
    using h1 h2
      broadcastPosition_throttle [OF h1 h2, of still 1700000000049 still]
      broadcastPosition_throttle [OF h1 h2, of still 1700000000050 still]
    by simp
qed

text \<open>
  Claim C6, as the code has it. \<open>leave\<close> sets \<open>channel\<close> to \<open>null\<close> and clears
  no timer: the timers registered before are registered after. A heartbeat that fires
  after \<open>leave\<close> has completed finds \<open>channel\<close> null and does nothing: it sends
  nothing to the closed channel. The same holds in every state in which \<open>channel\<close>
  is null, that is, until \<open>init\<close> is called again.
\<close>

theorem leave_does_not_cancel_timers:
  "timers (leave m) = timers m
   \<and> channel (leave m) = None
   \<and> heartbeat joined now (leave m) = leave m
   \<and> (i < length (timers m) \<and> timers m ! i = SetInterval (HeartbeatTask joined) d \<longrightarrow>
        fire i now state (leave m) = leave m)
   \<and> (channel m' = None \<longrightarrow> heartbeat joined now m' = m')"
  by (auto simp: leave_def fire_def heartbeat_def)

text \<open>An instance: the heartbeat of \<open>peerA\<close> fires 20 s after the subscription,
  after \<open>leave\<close>.\<close>

theorem leave_does_not_cancel_timers_witness:
  "0 < length (timers joinedA)
   \<and> timers joinedA ! 0 = SetInterval (HeartbeatTask 1000) 20000
   \<and> timers (leave joinedA) = timers joinedA
   \<and> channel (leave joinedA) = None
   \<and> fire 0 21000 [] (leave joinedA) = leave joinedA
   \<and> heartbeat 1000 21000 (leave joinedA) = leave joinedA"
proof -
  have h: "0 < length (timers joinedA) \<and> timers joinedA ! 0 = SetInterval (HeartbeatTask 1000) 20000"
    by (simp add: joinedA_eq)
  show ?thesis
    using h leave_does_not_cancel_timers [of joinedA 1000 21000 0 20000 "[]" "leave joinedA"]
    by blast
qed

text \<open>
  After \<open>init\<close> and \<open>leave\<close> both timers are still registered, and the delayed
  check, when it fires, calls \<open>presenceState\<close> on the \<open>null\<close> channel.
\<close>

theorem leave_cancels_timers_counterexample:
  "timers (leave joinedA) = [SetInterval (HeartbeatTask 1000) 20000, SetTimeout DelayedSyncTask 500]
   \<and> channel (leave joinedA) = None
   \<and> since (leave joinedA) (fire 1 1900 [] (leave joinedA)) = [UncaughtTypeError]"
  by (simp add: joinedA_eq leave_def fire_def delayed_sync_def since_def)



lemma null_clients:
  "supabaseClient mm = None \<Longrightarrow> set cs \<subseteq> {None}
     \<Longrightarrow> supabaseClient (fold setSupabaseClient cs mm) = None"
  by (induction cs arbitrary: mm) (simp_all add: setSupabaseClient_def)

text \<open>
  Claim C10. As long as every call of \<open>setSupabaseClient\<close> so far (if any) has
  passed \<open>null\<close>, \<open>createMultiplayerManager\<close> throws and returns no manager; right
  after a call of \<open>setSupabaseClient\<close> with a client it returns a manager.
\<close>

theorem createMultiplayerManager_needs_client:
  "(set cs \<subseteq> {None} \<longrightarrow>
      createMultiplayerManager worldId (fold setSupabaseClient cs init_multiplayer)
        = Inl (Error ''Supabase client not set. Call setSupabaseClient() first.''))
   \<and> createMultiplayerManager worldId (setSupabaseClient (Some client) mm)
        = Inr (new_manager (case worldId of None \<Rightarrow> ''portal'' | Some w \<Rightarrow> w))"
  by (simp add: createMultiplayerManager_def null_clients init_multiplayer_def
      setSupabaseClient_def)

text \<open>An instance: two calls with \<open>null\<close>, then one with a client.\<close>

theorem createMultiplayerManager_needs_client_witness:
  "set [None, None] \<subseteq> {None :: supabase_client option}
   \<and> createMultiplayerManager (Some ''room-1'') (fold setSupabaseClient [None, None] init_multiplayer)
        = Inl (Error ''Supabase client not set. Call setSupabaseClient() first.'')
   \<and> createMultiplayerManager (Some ''room-1'')
        (setSupabaseClient (Some (SupabaseClient ''https://example.supabase.co''))
           (fold setSupabaseClient [None, None] init_multiplayer))
        = Inr (new_manager ''room-1'')"
proof -
  have h: "set [None, None] \<subseteq> {None :: supabase_client option}"
    by simp
  show ?thesis
    using h createMultiplayerManager_needs_client [of "[None, None]" "Some ''room-1''"
        "SupabaseClient ''https://example.supabase.co''"
        "fold setSupabaseClient [None, None] init_multiplayer"]
    by simp
qed

end
